theory Spec2Isabelle
  imports Main
begin

section \<open>The statement builder of ukg: data model\<close>

text \<open>
  The builder of \<^verbatim>\<open>python/KStmt.py\<close> and \<^verbatim>\<open>python/ukg.py\<close> records statements in a stack of
  scope lists owned by a block (class \<^verbatim>\<open>KStmt\<close>) and folds a scope into one statement when a
  construct closes. Python exceptions are values of type \<open>error\<close>; a method of a block
  is a function from the block to a result and the block as the method leaves it, so
  that what was mutated before a \<^verbatim>\<open>raise\<close> stays visible. \<open>Unfollowed a\<close> is not an
  exception of Python: it marks a run in which \<^verbatim>\<open>__getattr__\<close> found a value under the
  name \<open>a\<close> of an attribute that was never assigned, and which would go on with that value
  in place of the attribute, into code outside the sources; the model stops there.
\<close>

datatype error =
    RuntimeError string
  | ValueError string
  | AttributeError string
  | TypeError string
  | IndexError string
  | AssertionError
  | Unfollowed string

text \<open>
  Expressions and IR nodes come from the external node factory (\<^verbatim>\<open>tvm.tir\<close>). The model
  keeps the constructors the builder calls and stores their arguments as given.
  \<open>expr_sub\<close> is Python's \<^verbatim>\<open>end - begin\<close>: integer subtraction on two integers, a
  subtraction node otherwise.
\<close>

datatype expr =
    IntImm int
  | Var string string
  | Sub expr expr
  | GT expr expr
  | Load string expr
  | Cast string expr
  | UIntImm string nat
  | StringImm string

fun expr_sub :: "expr \<Rightarrow> expr \<Rightarrow> expr" where
  "expr_sub (IntImm a) (IntImm b) = IntImm (a - b)"
| "expr_sub a b = Sub a b"

datatype for_kind = SERIAL | PARALLEL | VECTORIZED | UNROLLED

datatype buffer = Buffer "int list" "string option" string

text \<open>
  Python is dynamically typed: a scope list, and the child of a node, can hold any
  object. \<open>obj\<close> is the type of the objects the builder handles: the statement nodes
  (\<open>Block\<close> is the two-statement sequence), a reference to a \<^verbatim>\<open>KStmt\<close> object, \<^verbatim>\<open>None\<close>,
  and integers or strings standing for any other value. \<open>is_Stmt\<close> is
  \<^verbatim>\<open>isinstance(s, _stmt.Stmt)\<close>.
\<close>

datatype obj =
    Evaluate int
  | Block obj obj
  | IfThenElse expr obj obj
  | For expr expr expr for_kind obj
  | While expr obj
  | Break
  | Return expr
  | AttrStmt buffer string expr obj
  | KernelDef "expr list" "int list list" "string list" "string list" obj expr string string
      "string list"
  | KStmtRef nat
  | PyNone
  | PyInt int
  | PyStr string

fun is_Stmt :: "obj \<Rightarrow> bool" where
  "is_Stmt (KStmtRef r) = False"
| "is_Stmt PyNone = False"
| "is_Stmt (PyInt n) = False"
| "is_Stmt (PyStr s) = False"
| "is_Stmt s = True"

fun is_IfThenElse :: "obj \<Rightarrow> bool" where
  "is_IfThenElse (IfThenElse c t e) = True"
| "is_IfThenElse s = False"

text \<open>
  Truth value of an object, as \<^verbatim>\<open>if prev.else_case\<close> tests it: \<^verbatim>\<open>None\<close>, \<^verbatim>\<open>0\<close> and the
  empty string are false, every node and every \<^verbatim>\<open>KStmt\<close> is true.
\<close>

fun truthy :: "obj \<Rightarrow> bool" where
  "truthy PyNone = False"
| "truthy (PyInt n) = (n \<noteq> 0)"
| "truthy (PyStr s) = (s \<noteq> [])"
| "truthy s = True"

text \<open>
  An entry of a scope list is an object or a callable (a deferred wrapper). The one
  callable the source emits is the \<^verbatim>\<open>lambda\<close> of \<^verbatim>\<open>__exit__\<close>, a function from the statement
  that follows to the wrapped statement; callables are modelled as such functions.
\<close>

datatype entry = Obj obj | Callable "obj \<Rightarrow> obj"

fun callable :: "entry \<Rightarrow> bool" where
  "callable (Callable f) = True"
| "callable (Obj s) = False"

text \<open>
  The operation handle \<^verbatim>\<open>_ExternOp(...).output(0)\<close> is external; it is recorded by the
  arguments of the call: name, axes, the input blocks (whose \<^verbatim>\<open>_op\<close> and \<^verbatim>\<open>_buf\<close> are
  passed), the output buffer, the body, and the initial values with the constant flag
  when \<^verbatim>\<open>init_values\<close> is set.
\<close>

datatype extern_op =
  ExternOp string "expr list" "nat set" buffer obj "(int list \<times> bool) option"

text \<open>
  The attributes of a \<^verbatim>\<open>KStmt\<close> that the modelled methods read or write, in two groups.

  \<open>late_attrs\<close> holds \<^verbatim>\<open>name\<close> and the attributes \<^verbatim>\<open>__init__\<close> assigns from line 99 on
  (\<^verbatim>\<open>name_with_prefix\<close>, \<^verbatim>\<open>init_values\<close>, \<^verbatim>\<open>is_const\<close>, \<^verbatim>\<open>_op\<close>, \<^verbatim>\<open>_buf\<close>). The assignment to
  \<^verbatim>\<open>self.name\<close> is commented out in the source (lines 73 to 78) and line 99 reads
  \<^verbatim>\<open>self.name\<close>, so \<^verbatim>\<open>__init__\<close> raises there and none of these attributes is assigned:
  an object has them all (\<open>late b = Some l\<close>, an object as \<^verbatim>\<open>__init__\<close> would leave it if
  \<^verbatim>\<open>name\<close> were assigned) or none (\<open>late b = None\<close>, an object as line 98 leaves it).

  The other fields are the attributes lines 80 to 98 assign, and \<open>nidx\<close>, the attribute
  \<^verbatim>\<open>for_\<close> reads: no method assigns it before \<^verbatim>\<open>for_\<close> does, so it is absent (\<open>None\<close>) until
  then. Blocks are referred to by reference (\<open>nat\<close>); tensors by name.
\<close>

record late_attrs =
  name :: string
  name_with_prefix :: string
  init_values :: "int list option"
  is_const :: bool
  ext_op :: "extern_op option"
  buf :: buffer

record kstmt =
  stmt_stack :: "entry list list"
  var_dict :: "string \<rightharpoonup> obj"
  axis_list :: "expr list"
  has_break :: bool
  has_return :: bool
  ret_dtype :: "string option"
  for_level :: int
  for_ID :: int
  nidx :: "int option"
  subKStmts :: "nat list"
  input_KStmts :: "nat set"
  lhs_tensors :: "string set"
  last_subKStmts :: "nat set"
  late :: "late_attrs option"

section \<open>Scope stack: emit and pop_stmt (KStmt.py)\<close>

text \<open>
  \<^verbatim>\<open>emit\<close>: raises when \<^verbatim>\<open>has_break\<close> is set, else appends to the last list of the stack
  (\<^verbatim>\<open>stmt_stack[-1]\<close> raises IndexError on an empty stack).
\<close>

definition emit :: "entry \<Rightarrow> kstmt \<Rightarrow> (error + unit) \<times> kstmt" where
  "emit e b =
     (if has_break b then (Inl (RuntimeError ''Cannot write statements after break''), b)
      else if stmt_stack b = [] then (Inl (IndexError ''list index out of range''), b)
      else (Inr (), b\<lparr>stmt_stack := butlast (stmt_stack b) @ [last (stmt_stack b) @ [e]]\<rparr>))"

text \<open>
  The loop of \<^verbatim>\<open>pop_stmt\<close>, \<^verbatim>\<open>for s in reversed(stmts[:-1])\<close>: the first argument is the
  reversed list still to scan, the second the running \<^verbatim>\<open>stmt\<close>.
\<close>

fun fold_loop :: "entry list \<Rightarrow> obj \<Rightarrow> error + obj" where
  "fold_loop [] stmt = Inr stmt"
| "fold_loop (Callable f # ss) stmt = fold_loop ss (f stmt)"
| "fold_loop (Obj s # ss) stmt =
     (if is_Stmt s then fold_loop ss (Block s stmt) else Inl AssertionError)"

text \<open>
  The body of \<^verbatim>\<open>pop_stmt\<close> on the popped list. When the list is empty or ends with a
  callable, \<^verbatim>\<open>Evaluate(0)\<close> is appended: it is the starting \<^verbatim>\<open>stmt\<close> and the loop scans the
  whole original list reversed. Otherwise the last entry is the starting \<^verbatim>\<open>stmt\<close> and the
  loop scans the entries before it, reversed.
\<close>

definition fold_stmts :: "entry list \<Rightarrow> error + obj" where
  "fold_stmts stmts =
     (case rev stmts of
        [] \<Rightarrow> fold_loop [] (Evaluate 0)
      | Callable f # below \<Rightarrow> fold_loop (Callable f # below) (Evaluate 0)
      | Obj s # below \<Rightarrow> fold_loop below s)"

definition pop_stmt :: "kstmt \<Rightarrow> (error + obj) \<times> kstmt" where
  "pop_stmt b =
     (if stmt_stack b = [] then (Inl (IndexError ''pop from empty list''), b)
      else (fold_stmts (last (stmt_stack b)), b\<lparr>stmt_stack := butlast (stmt_stack b)\<rparr>))"

text \<open>\<^verbatim>\<open>replace_else\<close>: recurses through a chain of conditionals to the innermost else slot.\<close>

fun replace_else :: "obj \<Rightarrow> obj \<Rightarrow> error + obj" where
  "replace_else (IfThenElse c t e) else_stmt =
     (if is_IfThenElse e
      then (case replace_else e else_stmt of
              Inl x \<Rightarrow> Inl x
            | Inr e' \<Rightarrow> Inr (IfThenElse c t e'))
      else Inr (IfThenElse c t else_stmt))"
| "replace_else s else_stmt = Inl AssertionError"

section \<open>Interpreter state: objects, the open-block stack, class attributes\<close>

text \<open>
  \<open>heap\<close> maps a reference to its \<^verbatim>\<open>KStmt\<close> object, \<open>current\<close> is \<^verbatim>\<open>KStmt._current\<close> (newest
  last). \<open>cls_for_level\<close> and \<open>cls_has_break\<close> are the attributes \<^verbatim>\<open>for_level\<close> and
  \<^verbatim>\<open>has_break\<close> of the class object \<^verbatim>\<open>KStmt\<close> itself, which \<^verbatim>\<open>for_\<close> reads and assigns
  (\<^verbatim>\<open>KStmt.for_level += 1\<close>, \<^verbatim>\<open>KStmt.has_break = False\<close>); the class body defines neither, so
  they are absent (\<open>None\<close>) until assigned. An instance attribute of the same name, set
  by the constructor, is a different variable. \<open>KStmt_ops\<close> and \<open>last_KStmts\<close> are the
  registry \<^verbatim>\<open>Schedule\<close> that \<^verbatim>\<open>__exit__\<close> updates for a top-level block.
\<close>

record state =
  heap :: "nat \<Rightarrow> kstmt"
  next_ref :: nat
  current :: "nat list"
  cls_for_level :: "int option"
  cls_has_break :: "bool option"
  KStmt_ops :: "nat list"
  last_KStmts :: "nat set"

definition upd :: "nat \<Rightarrow> (kstmt \<Rightarrow> kstmt) \<Rightarrow> state \<Rightarrow> state" where
  "upd r f st = st\<lparr>heap := (heap st)(r := f (heap st r))\<rparr>"

text \<open>A method call \<^verbatim>\<open>r.m(...)\<close> on the object \<open>r\<close> refers to.\<close>

definition on_block ::
  "nat \<Rightarrow> (kstmt \<Rightarrow> (error + 'a) \<times> kstmt) \<Rightarrow> state \<Rightarrow> (error + 'a) \<times> state" where
  "on_block r m st = (case m (heap st r) of (x, b) \<Rightarrow> (x, st\<lparr>heap := (heap st)(r := b)\<rparr>))"

definition get_len :: "state \<Rightarrow> nat" where
  "get_len st = length (current st)"

definition get_current :: "state \<Rightarrow> error + nat" where
  "get_current st =
     (if current st = [] then Inl (IndexError ''list index out of range'')
      else Inr (last (current st)))"

section \<open>Attribute lookup: __getattr__ (KStmt.py)\<close>

text \<open>
  Reading an attribute the object does not have calls \<^verbatim>\<open>KStmt.__getattr__\<close>. It returns the
  entry of \<^verbatim>\<open>var_dict\<close> under that name (\<open>Entry\<close>); failing that, a tuple (\<open>Pair\<close>) when the
  name is that of a tensor in \<^verbatim>\<open>lhs_tensors\<close>, of an input block, or of a tensor in the
  \<^verbatim>\<open>lhs_tensors\<close> of an input block; and it raises ValueError otherwise. The message of
  the ValueError is kept up to the sets it prints.

  The loop over the input blocks evaluates \<^verbatim>\<open>KStmt.name == name\<close> for each of them. On an
  input block that has no attribute \<^verbatim>\<open>name\<close> this is a call of \<^verbatim>\<open>__getattr__\<close> for
  \<^verbatim>\<open>"name"\<close> on that block, which raises ValueError; the model takes the loop to meet such
  a block first (the order in which Python iterates over a set is not fixed) and the
  block to hold nothing under \<^verbatim>\<open>"name"\<close>.
\<close>

datatype found = Entry obj | Pair

definition getattr_hit :: "state \<Rightarrow> kstmt \<Rightarrow> string \<Rightarrow> bool" where
  "getattr_hit st b nm =
     (nm \<in> lhs_tensors b
      \<or> (\<exists>k \<in> input_KStmts b. map_option name (late (heap st k)) = Some nm)
      \<or> (\<exists>k \<in> input_KStmts b. nm \<in> lhs_tensors (heap st k)))"

definition getattr :: "state \<Rightarrow> kstmt \<Rightarrow> string \<Rightarrow> error + found" where
  "getattr st b nm =
     (case var_dict b nm of
        Some v \<Rightarrow> Inr (Entry v)
      | None \<Rightarrow>
          if nm \<in> lhs_tensors b then Inr Pair
          else if \<exists>k \<in> input_KStmts b. late (heap st k) = None
          then Inl (ValueError ''Member name not found'')
          else if getattr_hit st b nm then Inr Pair
          else Inl (ValueError (''Member '' @ nm @ '' not found'')))"

text \<open>
  The reads of \<^verbatim>\<open>self.name\<close> and \<^verbatim>\<open>self.name_with_prefix\<close>. On an object with its late
  attributes they give the attribute. On an object without them \<^verbatim>\<open>__getattr__\<close> runs: its
  exception propagates; a string it finds is used as the attribute would be. Any other
  value it finds fails the concatenation with \<^verbatim>\<open>"."\<close> that \<^verbatim>\<open>name_with_prefix\<close> is read
  for (TypeError); for \<^verbatim>\<open>name\<close> the run would go on with that value, which the model does
  not follow (\<open>Unfollowed\<close>).
\<close>

definition read_name :: "state \<Rightarrow> kstmt \<Rightarrow> error + string" where
  "read_name st b =
     (case late b of
        Some l \<Rightarrow> Inr (name l)
      | None \<Rightarrow>
          (case getattr st b ''name'' of
             Inl e \<Rightarrow> Inl e
           | Inr (Entry (PyStr s)) \<Rightarrow> Inr s
           | Inr v \<Rightarrow> Inl (Unfollowed ''name'')))"

definition read_prefix :: "state \<Rightarrow> kstmt \<Rightarrow> error + string" where
  "read_prefix st b =
     (case late b of
        Some l \<Rightarrow> Inr (name_with_prefix l)
      | None \<Rightarrow>
          (case getattr st b ''name_with_prefix'' of
             Inl e \<Rightarrow> Inl e
           | Inr (Entry (PyStr s)) \<Rightarrow> Inr s
           | Inr v \<Rightarrow> Inl (TypeError ''unsupported operand type(s) for +'')))"

section \<open>Blocks: constructor, __enter__, __exit__ (KStmt.py)\<close>

text \<open>
  \<open>blank\<close> is the object as lines 80 to 98 of \<^verbatim>\<open>__init__\<close> leave it. The constructor sets
  \<^verbatim>\<open>for_ID\<close> and no attribute \<^verbatim>\<open>nidx\<close>.
\<close>

definition blank :: kstmt where
  "blank =
     \<lparr>stmt_stack = [[]], var_dict = Map.empty, axis_list = [],
      has_break = False, has_return = False, ret_dtype = None, for_level = 0, for_ID = 0,
      nidx = None, subKStmts = [], input_KStmts = {}, lhs_tensors = {},
      last_subKStmts = {}, late = None\<rparr>"

text \<open>
  \<^verbatim>\<open>__init__\<close>. After line 98 comes line 99,
  \<^verbatim>\<open>self.name_with_prefix = self.name if KStmt.get_len() == 0 else
  KStmt.get_current().name_with_prefix + "." + self.name\<close>: with a block open, the prefix of
  that block is read first; then \<^verbatim>\<open>self.name\<close> is read on the object as line 98 left it
  (the parameter \<^verbatim>\<open>name\<close> is used by the commented-out lines only). If line 99 returned,
  lines 102 to 109 would assign the other late attributes;
  \<^verbatim>\<open>tvm_api.decl_buffer(shape, dtype, name)\<close> is external and the buffer is recorded by its
  arguments.
\<close>

definition KStmt_init :: "string \<Rightarrow> string option \<Rightarrow> int list \<Rightarrow> state \<Rightarrow> error + kstmt" where
  "KStmt_init nm dtype shape st =
     (case (if get_len st = 0 then Inr [] else
              (case read_prefix st (heap st (last (current st))) of
                 Inl e \<Rightarrow> Inl e
               | Inr p \<Rightarrow> Inr (p @ ''.''))) of
        Inl e \<Rightarrow> Inl e
      | Inr prefix \<Rightarrow>
          (case read_name st blank of
             Inl e \<Rightarrow> Inl e
           | Inr n \<Rightarrow>
               Inr (blank\<lparr>late := Some \<lparr>name = n, name_with_prefix = prefix @ n,
                                         init_values = None, is_const = False, ext_op = None,
                                         buf = Buffer shape dtype n\<rparr>\<rparr>)))"

text \<open>
  \<^verbatim>\<open>KStmt(name, dtype, shape)\<close>: when \<^verbatim>\<open>__init__\<close> returns, a new object at a fresh
  reference (\<open>place\<close>); when it raises, no object.
\<close>

definition place :: "kstmt \<Rightarrow> state \<Rightarrow> nat \<times> state" where
  "place b st =
     (next_ref st, st\<lparr>heap := (heap st)(next_ref st := b), next_ref := Suc (next_ref st)\<rparr>)"

definition new_KStmt ::
  "string \<Rightarrow> string option \<Rightarrow> int list \<Rightarrow> state \<Rightarrow> (error + nat) \<times> state" where
  "new_KStmt nm dtype shape st =
     (case KStmt_init nm dtype shape st of
        Inl e \<Rightarrow> (Inl e, st)
      | Inr b \<Rightarrow> (case place b st of (r, st1) \<Rightarrow> (Inr r, st1)))"

definition KStmt_enter :: "nat \<Rightarrow> state \<Rightarrow> state" where
  "KStmt_enter r st = st\<lparr>current := current st @ [r]\<rparr>"

text \<open>
  The wrapper \<^verbatim>\<open>__exit__\<close> emits into the parent:
  \<^verbatim>\<open>lambda x: AttrStmt(self._buf, "attach_scope", StringImm(superKStmt.name), x)\<close>. It reads
  \<^verbatim>\<open>self._buf\<close> and \<^verbatim>\<open>superKStmt.name\<close> when it is called; neither is assigned after
  construction, so the model reads them when the wrapper is emitted. Called for a parent
  without late attributes the wrapper would raise; \<^verbatim>\<open>__exit__\<close> raises for such a parent
  itself, a few statements later (\<open>absorb\<close>), and the model gives the wrapper it has
  emitted by then the empty name.
\<close>

definition attach_scope :: "buffer \<Rightarrow> string \<Rightarrow> obj \<Rightarrow> obj" where
  "attach_scope bf pname x = AttrStmt bf ''attach_scope'' (StringImm pname) x"

text \<open>
  The parent \<open>p\<close> absorbs the closing block \<open>r\<close>, whose name is \<open>nm\<close> (lines 143 to 157 of
  \<^verbatim>\<open>__exit__\<close>), one assignment after the other, each reading the objects as the one
  before left them. Line 155 reads the parent's \<^verbatim>\<open>name_with_prefix\<close>.
\<close>

definition absorb :: "nat \<Rightarrow> nat \<Rightarrow> string \<Rightarrow> state \<Rightarrow> (error + unit) \<times> state" where
  "absorb p r nm st0 =
     (let st1 = upd p (\<lambda>b. b\<lparr>input_KStmts := input_KStmts b \<union> input_KStmts (heap st0 r)\<rparr>) st0;
          st2 = upd p (\<lambda>b. b\<lparr>input_KStmts := input_KStmts b - last_subKStmts b\<rparr>) st1;
          st3 = upd p (\<lambda>b. b\<lparr>last_subKStmts := insert r (last_subKStmts b)\<rparr>) st2;
          st4 = upd p (\<lambda>b. b\<lparr>last_subKStmts := last_subKStmts b - input_KStmts (heap st3 r)\<rparr>) st3;
          st5 = upd p (\<lambda>b. b\<lparr>lhs_tensors := lhs_tensors b \<union> lhs_tensors (heap st4 r)\<rparr>) st4;
          st6 = upd p (\<lambda>b. b\<lparr>var_dict := (var_dict b)(nm \<mapsto> KStmtRef r)\<rparr>) st5
      in case read_prefix st6 (heap st6 p) of
           Inl e \<Rightarrow> (Inl e, st6)
         | Inr pre \<Rightarrow>
             (let st7 = upd r (\<lambda>b. b\<lparr>late := map_option
                                 (\<lambda>l. l\<lparr>name_with_prefix := pre @ ''.'' @ nm\<rparr>) (late b)\<rparr>) st6
              in (Inr (), upd p (\<lambda>b. b\<lparr>subKStmts := subKStmts b @ [r]\<rparr>) st7)))"

text \<open>A block that closes with no block open is entered in the registry.\<close>

definition register_top :: "nat \<Rightarrow> state \<Rightarrow> state" where
  "register_top r st =
     st\<lparr>KStmt_ops := KStmt_ops st @ [r],
        last_KStmts := insert r (last_KStmts st) - input_KStmts (heap st r)\<rparr>"

text \<open>
  The pieces of \<^verbatim>\<open>__exit__\<close> on the object \<open>r\<close>, in the order of the source. \<open>reconcile\<close>
  is the assignment to \<^verbatim>\<open>self.input_KStmts\<close> (line 118). \<open>read_inputs\<close> is lines 120 and
  121, which read \<^verbatim>\<open>_op\<close> and then \<^verbatim>\<open>_buf\<close> of every input block: an input block without
  late attributes on which \<^verbatim>\<open>__getattr__\<close> finds nothing makes the line raise (the
  message is given for the attribute the line reads). \<open>store_op\<close> is the assignment to
  \<^verbatim>\<open>self._op\<close> of the operation built from the folded body, \<open>attach\<close> the
  \<^verbatim>\<open>superKStmt.emit\<close> of the wrapper.
\<close>

definition reconcile :: "nat \<Rightarrow> state \<Rightarrow> state" where
  "reconcile r st = upd r (\<lambda>b. b\<lparr>input_KStmts := last_subKStmts b \<union> input_KStmts b\<rparr>) st"

definition readable :: "state \<Rightarrow> string \<Rightarrow> nat \<Rightarrow> bool" where
  "readable st nm i =
     (case late (heap st i) of
        Some l \<Rightarrow> True
      | None \<Rightarrow> (case getattr st (heap st i) nm of Inl e \<Rightarrow> False | Inr v \<Rightarrow> True))"

definition read_inputs :: "state \<Rightarrow> kstmt \<Rightarrow> error + unit" where
  "read_inputs st b =
     (if \<exists>i \<in> input_KStmts b. \<not> readable st ''_op'' i
      then Inl (ValueError ''Member _op not found'')
      else if \<exists>i \<in> input_KStmts b. \<not> readable st ''_buf'' i
      then Inl (ValueError ''Member _buf not found'')
      else Inr ())"

definition store_op :: "nat \<Rightarrow> late_attrs \<Rightarrow> obj \<Rightarrow> state \<Rightarrow> state" where
  "store_op r l body st =
     upd r (\<lambda>b. b\<lparr>late := Some (l\<lparr>ext_op :=
              Some (ExternOp (name l) (axis_list b) (input_KStmts b) (buf l) body
                      (case init_values l of None \<Rightarrow> None | Some v \<Rightarrow> Some (v, is_const l)))\<rparr>)\<rparr>) st"

definition attach :: "nat \<Rightarrow> late_attrs \<Rightarrow> state \<Rightarrow> (error + unit) \<times> state" where
  "attach p l st =
     on_block p
       (emit (Callable (attach_scope (buf l)
                          (case late (heap st p) of Some lp \<Rightarrow> name lp | None \<Rightarrow> []))))
       st"

text \<open>
  \<^verbatim>\<open>__exit__\<close>: reconcile the own input set (line 118), read \<^verbatim>\<open>_op\<close> and \<^verbatim>\<open>_buf\<close> of the
  input blocks (lines 120, 121) and \<^verbatim>\<open>self._buf\<close> (line 122). On an object without late
  attributes \<^verbatim>\<open>__getattr__\<close> runs for \<^verbatim>\<open>"_buf"\<close>: its exception leaves \<^verbatim>\<open>__exit__\<close>; with a
  value found the run would go on with that value, which the model does not follow. On
  an object with its late attributes: fold the top scope, pop \<^verbatim>\<open>KStmt._current\<close>, store
  the operation handle, then either let the new top of \<^verbatim>\<open>KStmt._current\<close> absorb the
  block or register it.
\<close>

definition KStmt_exit :: "nat \<Rightarrow> state \<Rightarrow> (error + unit) \<times> state" where
  "KStmt_exit r st0 =
     (let st1 = reconcile r st0 in
      case read_inputs st1 (heap st1 r) of
        Inl e \<Rightarrow> (Inl e, st1)
      | Inr u \<Rightarrow>
          (case late (heap st1 r) of
             None \<Rightarrow>
               (case getattr st1 (heap st1 r) ''_buf'' of
                  Inl e \<Rightarrow> (Inl e, st1)
                | Inr v \<Rightarrow> (Inl (Unfollowed ''_buf''), st1))
           | Some l \<Rightarrow>
               (case on_block r pop_stmt st1 of
                  (Inl e, st2) \<Rightarrow> (Inl e, st2)
                | (Inr body, st2) \<Rightarrow>
                    if current st2 = [] then (Inl (IndexError ''pop from empty list''), st2)
                    else
                      (let st4 = store_op r l body (st2\<lparr>current := butlast (current st2)\<rparr>)
                       in if current st4 = [] then (Inr (), register_top r st4)
                          else
                            (case attach (last (current st4)) l st4 of
                               (Inl e, st5) \<Rightarrow> (Inl e, st5)
                             | (Inr u, st5) \<Rightarrow> absorb (last (current st4)) r (name l) st5)))))"

section \<open>Control-flow constructs (ukg.py)\<close>

text \<open>
  Each construct is an entry function, which returns what its closure \<^verbatim>\<open>_exit_cb\<close>
  captures (the block \<^verbatim>\<open>ukg_stmt\<close> that was current, and \<^verbatim>\<open>prev\<close> or the loop variable),
  and the closure as a function of its own. The closures of \<^verbatim>\<open>if_\<close>, \<^verbatim>\<open>else_\<close>, \<^verbatim>\<open>elif_\<close> and
  \<^verbatim>\<open>while_\<close> touch \<^verbatim>\<open>ukg_stmt\<close> only and are functions on that block.
\<close>

definition push_scope :: "kstmt \<Rightarrow> kstmt" where
  "push_scope b = b\<lparr>stmt_stack := stmt_stack b @ [[]]\<rparr>"

definition ukg_if :: "expr \<Rightarrow> state \<Rightarrow> (error + nat) \<times> state" where
  "ukg_if cond st =
     (case get_current st of
        Inl e \<Rightarrow> (Inl e, st)
      | Inr r \<Rightarrow> (Inr r, upd r push_scope st))"

definition if_exit_cb :: "expr \<Rightarrow> kstmt \<Rightarrow> (error + unit) \<times> kstmt" where
  "if_exit_cb cond b =
     (case pop_stmt b of
        (Inl e, b1) \<Rightarrow> (Inl e, b1)
      | (Inr stmt, b1) \<Rightarrow> emit (Obj (IfThenElse cond stmt PyNone)) (b1\<lparr>has_break := False\<rparr>))"

fun else_case :: "obj \<Rightarrow> obj" where
  "else_case (IfThenElse c t e) = e"
| "else_case s = PyNone"

text \<open>
  \<^verbatim>\<open>stmt_stack[-1].pop()\<close> followed by \<^verbatim>\<open>stmt_stack.append([])\<close>: drop the last entry of the
  current scope and open a new scope.
\<close>

definition take_prev :: "kstmt \<Rightarrow> kstmt" where
  "take_prev b =
     b\<lparr>stmt_stack := butlast (stmt_stack b) @ [butlast (last (stmt_stack b))] @ [[]]\<rparr>"

definition ukg_else :: "state \<Rightarrow> (error + nat \<times> obj) \<times> state" where
  "ukg_else st =
     (case get_current st of
        Inl e \<Rightarrow> (Inl e, st)
      | Inr r \<Rightarrow>
          if stmt_stack (heap st r) = [] then (Inl (IndexError ''list index out of range''), st)
          else if last (stmt_stack (heap st r)) = []
          then (Inl (RuntimeError ''else_ can only follow an if_''), st)
          else
            (case last (last (stmt_stack (heap st r))) of
               Callable f \<Rightarrow> (Inl (RuntimeError ''else_ can only follow an if_''), st)
             | Obj prev \<Rightarrow>
                 if \<not> is_IfThenElse prev
                 then (Inl (RuntimeError ''else_ can only follow an if_''), st)
                 else if truthy (else_case prev)
                 then (Inl (RuntimeError ''else_ can only follow an if_''), st)
                 else (Inr (r, prev), upd r take_prev st)))"

definition else_exit_cb :: "obj \<Rightarrow> kstmt \<Rightarrow> (error + unit) \<times> kstmt" where
  "else_exit_cb prev b =
     (case pop_stmt b of
        (Inl e, b1) \<Rightarrow> (Inl e, b1)
      | (Inr stmt, b1) \<Rightarrow>
          (case replace_else prev stmt of
             Inl e \<Rightarrow> (Inl e, b1\<lparr>has_break := False\<rparr>)
           | Inr s \<Rightarrow> emit (Obj s) (b1\<lparr>has_break := False\<rparr>)))"

definition ukg_elif :: "expr \<Rightarrow> state \<Rightarrow> (error + nat \<times> obj) \<times> state" where
  "ukg_elif cond st =
     (case get_current st of
        Inl e \<Rightarrow> (Inl e, st)
      | Inr r \<Rightarrow>
          if stmt_stack (heap st r) = [] then (Inl (IndexError ''list index out of range''), st)
          else if last (stmt_stack (heap st r)) = []
          then (Inl (RuntimeError ''elif_ can only follow an if_''), st)
          else
            (case last (last (stmt_stack (heap st r))) of
               Callable f \<Rightarrow> (Inl (RuntimeError ''elif_ can only follow an if_''), st)
             | Obj prev \<Rightarrow>
                 if \<not> is_IfThenElse prev
                 then (Inl (RuntimeError ''elif_ can only follow an if_''), st)
                 else (Inr (r, prev), upd r take_prev st)))"

definition elif_exit_cb :: "obj \<Rightarrow> expr \<Rightarrow> kstmt \<Rightarrow> (error + unit) \<times> kstmt" where
  "elif_exit_cb prev cond b =
     (case pop_stmt b of
        (Inl e, b1) \<Rightarrow> (Inl e, b1)
      | (Inr stmt, b1) \<Rightarrow>
          (case replace_else prev (IfThenElse cond stmt PyNone) of
             Inl e \<Rightarrow> (Inl e, b1\<lparr>has_break := False\<rparr>)
           | Inr s \<Rightarrow> emit (Obj s) (b1\<lparr>has_break := False\<rparr>)))"

definition ukg_while :: "expr \<Rightarrow> state \<Rightarrow> (error + nat) \<times> state" where
  "ukg_while condition st =
     (case get_current st of
        Inl e \<Rightarrow> (Inl e, st)
      | Inr r \<Rightarrow> (Inr r, upd r (\<lambda>b. (push_scope b)\<lparr>for_level := for_level b + 1\<rparr>) st))"

definition while_exit_cb :: "expr \<Rightarrow> kstmt \<Rightarrow> (error + unit) \<times> kstmt" where
  "while_exit_cb condition b =
     (case pop_stmt b of
        (Inl e, b1) \<Rightarrow> (Inl e, b1)
      | (Inr stmt, b1) \<Rightarrow>
          emit (Obj (While condition stmt))
            (b1\<lparr>has_break := False, for_level := for_level b1 - 1\<rparr>))"

definition ukg_break :: "state \<Rightarrow> (error + unit) \<times> state" where
  "ukg_break st =
     (case get_current st of
        Inl e \<Rightarrow> (Inl e, st)
      | Inr r \<Rightarrow>
          if for_level (heap st r) = 0
          then (Inl (RuntimeError ''break_ must be used inside a for/while loop''), st)
          else
            (case on_block r (emit (Obj Break)) st of
               (Inl e, st1) \<Rightarrow> (Inl e, st1)
             | (Inr u, st1) \<Rightarrow> (Inr (), upd r (\<lambda>b. b\<lparr>has_break := True\<rparr>) st1)))"

text \<open>
  \<^verbatim>\<open>return_\<close>; \<^verbatim>\<open>util.get_tvm_dtype\<close> is external and passed as \<open>gtd\<close>.
\<close>

definition ukg_return :: "(string option \<Rightarrow> string) \<Rightarrow> expr \<Rightarrow> state \<Rightarrow> (error + unit) \<times> state" where
  "ukg_return gtd val st =
     (if get_len st = 0
      then (Inl (RuntimeError ''Imperative DSL must be used with other compute APIs''), st)
      else
        (let r = last (current st) in
         case on_block r (emit (Obj (Return (Cast (gtd (ret_dtype (heap st r))) val)))) st of
           (Inl e, st1) \<Rightarrow> (Inl e, st1)
         | (Inr u, st1) \<Rightarrow> (Inr (), upd r (\<lambda>b. b\<lparr>has_return := True\<rparr>) st1)))"

subsection \<open>for_\<close>

text \<open>Python's \<^verbatim>\<open>str\<close> on an integer.\<close>

function str_nat :: "nat \<Rightarrow> string" where
  "str_nat n =
     (if n < 10 then [''0123456789'' ! n]
      else str_nat (n div 10) @ [''0123456789'' ! (n mod 10)])"
  by pat_completeness auto
termination
  by (relation "measure id") auto

declare str_nat.simps [simp del]

definition str_int :: "int \<Rightarrow> string" where
  "str_int i = (if i < 0 then ''-'' @ str_nat (nat (- i)) else str_nat (nat i))"

text \<open>
  Reading \<^verbatim>\<open>ukg_stmt.nidx\<close>. If the instance has the attribute, its value. Otherwise
  Python calls \<^verbatim>\<open>KStmt.__getattr__\<close>: a value stored under the key \<^verbatim>\<open>"nidx"\<close> in \<^verbatim>\<open>var_dict\<close> is
  returned (an integer can be used as the counter; any other object fails the
  comparison \<^verbatim>\<open>< 3\<close>); a hit among \<^verbatim>\<open>lhs_tensors\<close>, the names of the input blocks or their
  \<^verbatim>\<open>lhs_tensors\<close> returns a tuple, which fails the comparison too; with no hit,
  \<^verbatim>\<open>__getattr__\<close> raises ValueError.
\<close>

definition read_nidx :: "state \<Rightarrow> kstmt \<Rightarrow> error + int" where
  "read_nidx st b =
     (case nidx b of
        Some n \<Rightarrow> Inr n
      | None \<Rightarrow>
          (case getattr st b ''nidx'' of
             Inl e \<Rightarrow> Inl e
           | Inr (Entry (PyInt n)) \<Rightarrow> Inr n
           | Inr v \<Rightarrow> Inl (TypeError ''< not supported'')))"

text \<open>
  The name of an unnamed loop, from the counter \<open>n\<close>:
  \<^verbatim>\<open>chr(ord(name) + n) if n < 3 else name + "_" + str(n - 3)\<close> with \<^verbatim>\<open>name == "i"\<close>.
  \<^verbatim>\<open>chr\<close> raises ValueError on a negative argument.
\<close>

definition default_name :: "int \<Rightarrow> error + string" where
  "default_name n =
     (if n < 3
      then (if of_char (CHR ''i'') + n < 0
            then Inl (ValueError ''chr() arg not in range(0x110000)'')
            else Inr [char_of (of_char (CHR ''i'') + n)])
      else Inr (''i'' @ ''_'' @ str_int (n - 3)))"

definition kind_id :: "string \<Rightarrow> error + for_kind" where
  "kind_id kind =
     (if kind = ''serial'' then Inr SERIAL
      else if kind = ''parallel'' then Inr PARALLEL
      else if kind = ''vectorize'' then Inr VECTORIZED
      else if kind = ''unroll'' then Inr UNROLLED
      else Inl (ValueError ''Unknown kind''))"

text \<open>
  \<^verbatim>\<open>begin == 0\<close> holds for the constant 0. The closure captures the block, the loop
  variable and the extent, which the entry returns.
\<close>

definition loop_extent :: "expr \<Rightarrow> expr \<Rightarrow> expr" where
  "loop_extent begin_v end_v = (if begin_v = IntImm 0 then end_v else expr_sub end_v begin_v)"

text \<open>
  The statements of \<^verbatim>\<open>for_\<close> after the name is chosen: push a scope, build the loop
  variable and the extent, then \<^verbatim>\<open>KStmt.for_level += 1\<close> on the class object, which
  raises AttributeError while the class has no attribute \<^verbatim>\<open>for_level\<close>.
\<close>

definition for_open ::
  "nat \<Rightarrow> expr \<Rightarrow> expr \<Rightarrow> string \<Rightarrow> string \<Rightarrow> state \<Rightarrow> (error + nat \<times> expr \<times> expr) \<times> state" where
  "for_open r begin_v end_v nm dtype st =
     (let st1 = upd r push_scope st in
      case cls_for_level st1 of
        None \<Rightarrow> (Inl (AttributeError ''type object KStmt has no attribute for_level''), st1)
      | Some l \<Rightarrow>
          (Inr (r, Var nm dtype, loop_extent begin_v end_v), st1\<lparr>cls_for_level := Some (l + 1)\<rparr>))"

definition ukg_for ::
  "expr \<Rightarrow> expr \<Rightarrow> string \<Rightarrow> string \<Rightarrow> state \<Rightarrow> (error + nat \<times> expr \<times> expr) \<times> state" where
  "ukg_for begin_v end_v nm dtype st =
     (case get_current st of
        Inl e \<Rightarrow> (Inl e, st)
      | Inr r \<Rightarrow>
          if nm = ''i''
          then (case read_nidx st (heap st r) of
                  Inl e \<Rightarrow> (Inl e, st)
                | Inr n \<Rightarrow>
                    (case default_name n of
                       Inl e \<Rightarrow> (Inl e, st)
                     | Inr nm' \<Rightarrow>
                         for_open r begin_v end_v nm' dtype
                           (upd r (\<lambda>b. b\<lparr>nidx := Some (n + 1)\<rparr>) st)))
          else for_open r begin_v end_v nm dtype st)"

text \<open>
  The closure \<^verbatim>\<open>_exit_cb\<close> of \<^verbatim>\<open>for_\<close>, as written: it assigns \<^verbatim>\<open>KStmt.has_break\<close> and
  \<^verbatim>\<open>KStmt.for_level\<close> on the class object, does not call \<^verbatim>\<open>pop_stmt\<close>, and emits a
  \<^verbatim>\<open>For\<close> node whose body argument is the block object \<^verbatim>\<open>ukg_stmt\<close> itself.
\<close>

definition for_exit_cb ::
  "nat \<Rightarrow> expr \<Rightarrow> expr \<Rightarrow> expr \<Rightarrow> string \<Rightarrow> state \<Rightarrow> (error + unit) \<times> state" where
  "for_exit_cb r loop_var begin_v extent kind st =
     (case kind_id kind of
        Inl e \<Rightarrow> (Inl e, st)
      | Inr k \<Rightarrow>
          (case cls_for_level st of
             None \<Rightarrow>
               (Inl (AttributeError ''type object KStmt has no attribute for_level''),
                st\<lparr>cls_has_break := Some False\<rparr>)
           | Some l \<Rightarrow>
               on_block r (emit (Obj (For loop_var begin_v extent k (KStmtRef r))))
                 (st\<lparr>cls_has_break := Some False, cls_for_level := Some (l + 1)\<rparr>)))"

section \<open>Traces: the builder calls a host function makes\<close>

text \<open>
  A host function that is traced (the body of a \<^verbatim>\<open>with\<close> statement, the callable given to
  \<^verbatim>\<open>def_\<close>) is the sequence of builder calls it makes. \<^verbatim>\<open>with X: body\<close> evaluates \<^verbatim>\<open>X\<close> (the
  entry function), runs the body, and then runs the exit (\<^verbatim>\<open>WithScope.__exit__\<close> of
  \<^verbatim>\<open>tvm.tir.ir_builder\<close> calls \<^verbatim>\<open>_exit_cb\<close>; \<^verbatim>\<open>KStmt.__exit__\<close>) whether or not the body
  raised; an exception of the exit replaces the body's, otherwise the body's propagates.
  A trace stops at the first exception.
\<close>

datatype cmd =
    EmitC entry
  | IfC expr "cmd list"
  | ElifC expr "cmd list"
  | ElseC "cmd list"
  | ForC expr expr string string string "cmd list"
  | WhileC expr "cmd list"
  | BreakC
  | ReturnC expr
  | WithKStmt string "cmd list"

definition with_exit ::
  "(error + unit) \<times> state \<Rightarrow> (state \<Rightarrow> (error + unit) \<times> state) \<Rightarrow> (error + unit) \<times> state" where
  "with_exit res exit_cb =
     (case exit_cb (snd res) of
        (Inl e, st) \<Rightarrow> (Inl e, st)
      | (Inr u, st) \<Rightarrow> (fst res, st))"

fun exec :: "(string option \<Rightarrow> string) \<Rightarrow> cmd \<Rightarrow> state \<Rightarrow> (error + unit) \<times> state"
and execs :: "(string option \<Rightarrow> string) \<Rightarrow> cmd list \<Rightarrow> state \<Rightarrow> (error + unit) \<times> state" where
  "exec gtd (EmitC e) st =
     (case get_current st of
        Inl x \<Rightarrow> (Inl x, st)
      | Inr r \<Rightarrow> on_block r (emit e) st)"
| "exec gtd (IfC c body) st =
     (case ukg_if c st of
        (Inl x, st1) \<Rightarrow> (Inl x, st1)
      | (Inr r, st1) \<Rightarrow> with_exit (execs gtd body st1) (on_block r (if_exit_cb c)))"
| "exec gtd (ElifC c body) st =
     (case ukg_elif c st of
        (Inl x, st1) \<Rightarrow> (Inl x, st1)
      | (Inr (r, prev), st1) \<Rightarrow>
          with_exit (execs gtd body st1) (on_block r (elif_exit_cb prev c)))"
| "exec gtd (ElseC body) st =
     (case ukg_else st of
        (Inl x, st1) \<Rightarrow> (Inl x, st1)
      | (Inr (r, prev), st1) \<Rightarrow>
          with_exit (execs gtd body st1) (on_block r (else_exit_cb prev)))"
| "exec gtd (ForC begin_v end_v nm dtype kind body) st =
     (case ukg_for begin_v end_v nm dtype st of
        (Inl x, st1) \<Rightarrow> (Inl x, st1)
      | (Inr (r, loop_var, extent), st1) \<Rightarrow>
          with_exit (execs gtd body st1) (for_exit_cb r loop_var begin_v extent kind))"
| "exec gtd (WhileC c body) st =
     (case ukg_while c st of
        (Inl x, st1) \<Rightarrow> (Inl x, st1)
      | (Inr r, st1) \<Rightarrow> with_exit (execs gtd body st1) (on_block r (while_exit_cb c)))"
| "exec gtd BreakC st = ukg_break st"
| "exec gtd (ReturnC v) st = ukg_return gtd v st"
| "exec gtd (WithKStmt nm body) st =
     (case new_KStmt nm None [] st of
        (Inl x, st1) \<Rightarrow> (Inl x, st1)
      | (Inr r, st1) \<Rightarrow> with_exit (execs gtd body (KStmt_enter r st1)) (KStmt_exit r))"
| "execs gtd [] st = (Inr (), st)"
| "execs gtd (c # cs) st =
     (case exec gtd c st of
        (Inl x, st1) \<Rightarrow> (Inl x, st1)
      | (Inr u, st1) \<Rightarrow> execs gtd cs st1)"

section \<open>Function definition (def_ of ukg.py)\<close>

text \<open>
  What \<^verbatim>\<open>def_\<close> does inside \<^verbatim>\<open>with KStmt(name) as s\<close> from \<^verbatim>\<open>s.ret_dtype = ret_dtype\<close> to the
  \<^verbatim>\<open>s.emit(KernelDef(...))\<close>. The placeholders, shapes and dtypes are prepared by external
  helpers (\<^verbatim>\<open>placeholder\<close>, \<^verbatim>\<open>util\<close>) and are arguments here; \<open>rd\<close> is the return dtype
  \<^verbatim>\<open>util.get_tvm_dtype\<close> gave, \<open>fmodule\<close> the trace of the callable.
\<close>

definition def_emit ::
  "(string option \<Rightarrow> string) \<Rightarrow> nat \<Rightarrow> expr list \<Rightarrow> int list list \<Rightarrow> string list \<Rightarrow>
   string list \<Rightarrow> string \<Rightarrow> string \<Rightarrow> cmd list \<Rightarrow> state \<Rightarrow> (error + unit) \<times> state" where
  "def_emit gtd s inputs_tvm arg_shapes arg_dtypes arg_tensors rd nm fmodule st =
     (case execs gtd fmodule (upd s (\<lambda>b. b\<lparr>ret_dtype := Some rd\<rparr>) st) of
        (Inl e, st2) \<Rightarrow> (Inl e, st2)
      | (Inr u, st2) \<Rightarrow>
          (case on_block s pop_stmt st2 of
             (Inl e, st3) \<Rightarrow> (Inl e, st3)
           | (Inr body, st3) \<Rightarrow>
               on_block s
                 (emit (Obj (KernelDef inputs_tvm arg_shapes arg_dtypes arg_tensors body
                          (if has_return (heap st2 s) then UIntImm ''uint1'' 0
                           else UIntImm ''uint1'' 1)
                          rd nm [])))
                 (upd s push_scope st3)))"

text \<open>
  \<^verbatim>\<open>s.input_ukg_stmts.clear()\<close>: the class has no attribute \<^verbatim>\<open>input_ukg_stmts\<close>, so
  \<^verbatim>\<open>__getattr__\<close> runs; it raises ValueError when it finds nothing, and what it finds
  otherwise (a placeholder, a block or a tuple) has no method \<^verbatim>\<open>clear\<close>.
\<close>

definition clear_inputs_error :: "state \<Rightarrow> kstmt \<Rightarrow> error" where
  "clear_inputs_error st b =
     (case getattr st b ''input_ukg_stmts'' of
        Inl e \<Rightarrow> e
      | Inr v \<Rightarrow> AttributeError ''clear'')"

text \<open>
  \<^verbatim>\<open>def_\<close> from \<^verbatim>\<open>with KStmt(name) as s\<close> on; \<open>params\<close> is \<^verbatim>\<open>zip(names, inputs)\<close>. When the
  constructor raises, the \<^verbatim>\<open>with\<close> statement is not entered. Inside it,
  \<^verbatim>\<open>s.name_with_prefix\<close> is read first (for \<^verbatim>\<open>util.get_tvm_dtype(ret_dtype,
  s.name_with_prefix)\<close>); the statement after the loop over \<open>params\<close> raises,
  \<^verbatim>\<open>KStmt.__exit__\<close> runs, and the exception leaves the decorator.
\<close>

definition ukg_def ::
  "(string option \<Rightarrow> string) \<Rightarrow> (string \<times> obj) list \<Rightarrow> expr list \<Rightarrow> int list list \<Rightarrow>
   string list \<Rightarrow> string list \<Rightarrow> string \<Rightarrow> string \<Rightarrow> cmd list \<Rightarrow> state \<Rightarrow>
   (error + unit) \<times> state" where
  "ukg_def gtd params inputs_tvm arg_shapes arg_dtypes arg_tensors rd nm fmodule st =
     (case new_KStmt nm None [] st of
        (Inl e, st1) \<Rightarrow> (Inl e, st1)
      | (Inr s, st1) \<Rightarrow>
          with_exit
            (case read_prefix st1 (heap st1 s) of
               Inl e \<Rightarrow> (Inl e, KStmt_enter s st1)
             | Inr pre \<Rightarrow>
                 (case def_emit gtd s inputs_tvm arg_shapes arg_dtypes arg_tensors rd nm
                         fmodule (KStmt_enter s st1) of
                    (Inl e, st2) \<Rightarrow> (Inl e, st2)
                  | (Inr u, st2) \<Rightarrow>
                      (let st3 = upd s (\<lambda>b. b\<lparr>var_dict :=
                                   foldl (\<lambda>m (k, v). m(k \<mapsto> v)) (var_dict b) params\<rparr>) st2
                       in (Inl (clear_inputs_error st3 (heap st3 s)), st3))))
            (KStmt_exit s))"

section \<open>Notions of the specification\<close>

text \<open>
  The fold of a scope list as the specification words it: a wrapper is applied to the
  running result, a concrete statement \<open>S\<close> and the running result \<open>R\<close> become the sequence
  of \<open>S\<close> and \<open>R\<close>; the running result starts from the last concrete statement, after a
  no-op is appended to a list that is empty or ends with a wrapper.
\<close>

fun combine :: "entry \<Rightarrow> obj \<Rightarrow> obj" where
  "combine (Callable w) R = w R"
| "combine (Obj S) R = Block S R"

fun spec_pop_scope :: "entry list \<Rightarrow> obj" where
  "spec_pop_scope [] = Evaluate 0"
| "spec_pop_scope [Obj s] = s"
| "spec_pop_scope (e # es) = combine e (spec_pop_scope es)"

text \<open>The right-nested sequence of a list of statements, in their order.\<close>

fun seq_of :: "obj list \<Rightarrow> obj" where
  "seq_of [] = Evaluate 0"
| "seq_of [s] = s"
| "seq_of (s # ss) = Block s (seq_of ss)"

text \<open>An entry a scope list is meant to hold: a statement node or a wrapper.\<close>

fun scope_entry :: "entry \<Rightarrow> bool" where
  "scope_entry (Callable f) = True"
| "scope_entry (Obj s) = is_Stmt s"

text \<open>
  \<open>uses_return\<close>: the trace calls \<^verbatim>\<open>return_\<close> somewhere.
\<close>

fun uses_return :: "cmd \<Rightarrow> bool"
and uses_returns :: "cmd list \<Rightarrow> bool" where
  "uses_return (EmitC e) = False"
| "uses_return (IfC c body) = uses_returns body"
| "uses_return (ElifC c body) = uses_returns body"
| "uses_return (ElseC body) = uses_returns body"
| "uses_return (ForC b e nm dtype kind body) = uses_returns body"
| "uses_return (WhileC c body) = uses_returns body"
| "uses_return BreakC = False"
| "uses_return (ReturnC v) = True"
| "uses_return (WithKStmt nm body) = uses_returns body"
| "uses_returns [] = False"
| "uses_returns (c # cs) = (uses_return c \<or> uses_returns cs)"

text \<open>
  Two relations between the state before and after a piece of a trace. \<open>kept\<close>: the
  stack of open blocks and every block's \<^verbatim>\<open>has_return\<close> are as before. \<open>traced st st' u\<close>:
  the stack of open blocks is as before, and \<^verbatim>\<open>has_return\<close> has been set on the current
  block if \<open>u\<close> holds and is otherwise as before.
\<close>

definition kept :: "state \<Rightarrow> state \<Rightarrow> bool" where
  "kept st st' = (current st' = current st
                  \<and> (\<forall>q. has_return (heap st' q) = has_return (heap st q)))"

definition traced :: "state \<Rightarrow> state \<Rightarrow> bool \<Rightarrow> bool" where
  "traced st st' u =
     (current st' = current st
      \<and> (\<forall>q. has_return (heap st' q)
               = (has_return (heap st q) \<or> (u \<and> q = last (current st)))))"

text \<open>
  \<open>start_state\<close> is the interpreter with nothing open and the class as its body defines
  it. The constructor raises before it returns (\<open>KStmt_init\<close>), so no
  \<^verbatim>\<open>with KStmt(...)\<close> block is entered from there. The functions of \<^verbatim>\<open>ukg.py\<close> expect a
  block on \<^verbatim>\<open>KStmt._current\<close>; \<open>open_state\<close> gives them one: the object as lines 80 to 98
  of the constructor leave it, held at reference 0 and entered.
\<close>

definition start_state :: state where
  "start_state =
     \<lparr>heap = (\<lambda>r. blank), next_ref = 0, current = [], cls_for_level = None,
      cls_has_break = None, KStmt_ops = [], last_KStmts = {}\<rparr>"

definition open_state :: state where
  "open_state = (case place blank start_state of (r, st) \<Rightarrow> KStmt_enter r st)"

text \<open>
  The block of \<open>open_state\<close> after \<^verbatim>\<open>if 1: break\<close> and \<^verbatim>\<open>else: Evaluate(0)\<close> were recorded:
  its scope ends with a conditional whose else-branch is set.
\<close>

definition st_if_else :: state where
  "st_if_else =
     upd 0 (\<lambda>b. b\<lparr>stmt_stack := [[Obj (IfThenElse (IntImm 1) Break (Evaluate 0))]]\<rparr>) open_state"

text \<open>
  Inside the block of \<open>open_state\<close>: \<^verbatim>\<open>while_(1)\<close> and \<^verbatim>\<open>if_(2)\<close> entered (\<open>st_loop_if\<close>), then
  \<^verbatim>\<open>break_()\<close> called (\<open>st_broken\<close>).
\<close>

definition st_loop_if :: state where
  "st_loop_if = snd (ukg_if (IntImm 2) (snd (ukg_while (IntImm 1) open_state)))"

definition st_broken :: state where
  "st_broken = snd (ukg_break st_loop_if)"

text \<open>
  \<open>st_counted\<close> is \<open>open_state\<close> with the two attributes \<^verbatim>\<open>for_\<close> reads put in place: the
  block's counter \<^verbatim>\<open>nidx\<close> at 0 and the class attribute \<^verbatim>\<open>KStmt.for_level\<close> at 0.
  \<open>for_if_break\<close> is the trace of
  \<^verbatim>\<open>with for_(0, 5) as i: with if_(A[i] > 3): break_()\<close>.
\<close>

definition st_counted :: state where
  "st_counted = (upd 0 (\<lambda>b. b\<lparr>nidx := Some 0\<rparr>) open_state)\<lparr>cls_for_level := Some 0\<rparr>"

definition for_if_break :: cmd where
  "for_if_break =
     ForC (IntImm 0) (IntImm 5) ''i'' ''int32'' ''serial''
       [IfC (GT (Load ''A'' (Var ''i'' ''int32'')) (IntImm 3)) [BreakC]]"

text \<open>
  \<open>for_one_stmt\<close> is the trace of \<^verbatim>\<open>with for_(0, 5, name="x"): emit(Evaluate(7))\<close>, and
  \<open>while_one_stmt\<close> of \<^verbatim>\<open>with while_(1): emit(Evaluate(7))\<close>; both run in the block of
  \<open>st_counted\<close>.
\<close>

definition for_one_stmt :: cmd where
  "for_one_stmt =
     ForC (IntImm 0) (IntImm 5) ''x'' ''int32'' ''serial'' [EmitC (Obj (Evaluate 7))]"

definition while_one_stmt :: cmd where
  "while_one_stmt = WhileC (IntImm 1) [EmitC (Obj (Evaluate 7))]"

text \<open>
  \<open>unnamed_loop\<close> is the trace of \<^verbatim>\<open>with for_(0, 5): pass\<close>, a loop given no name (the
  default of the parameter \<^verbatim>\<open>name\<close> is \<^verbatim>\<open>"i"\<close>).
\<close>

definition unnamed_loop :: cmd where
  "unnamed_loop = ForC (IntImm 0) (IntImm 5) ''i'' ''int32'' ''serial'' []"

text \<open>
  \<open>while_if_break\<close> is the trace of
  \<^verbatim>\<open>with while_(1): (with if_(2): break_()); emit(Evaluate(5))\<close>, and \<open>while_for_break\<close>
  of \<^verbatim>\<open>with while_(1): with for_(0, 5, name="x"): break_()\<close>. \<open>st_for_broken\<close> is
  \<open>st_counted\<close> after \<^verbatim>\<open>while_(1)\<close> and \<^verbatim>\<open>for_(0, 5, name="x")\<close> were entered and \<^verbatim>\<open>break_()\<close>
  was called.
\<close>

definition while_if_break :: cmd where
  "while_if_break = WhileC (IntImm 1) [IfC (IntImm 2) [BreakC], EmitC (Obj (Evaluate 5))]"

definition while_for_break :: cmd where
  "while_for_break =
     WhileC (IntImm 1) [ForC (IntImm 0) (IntImm 5) ''x'' ''int32'' ''serial'' [BreakC]]"

definition st_for_broken :: state where
  "st_for_broken =
     snd (ukg_break (snd (ukg_for (IntImm 0) (IntImm 5) ''x'' ''int32''
                            (snd (ukg_while (IntImm 1) st_counted)))))"

text \<open>
  \<open>st_child\<close> is \<open>open_state\<close> with a second object as line 98 leaves it, held at reference
  1 and entered: a parent at 0 and a child at 1. \<open>blocks_P_A_B\<close> is the trace of
  \<^verbatim>\<open>with KStmt("P"): (with KStmt("A"): pass); (with KStmt("B"): pass)\<close>.
\<close>

definition st_child :: state where
  "st_child = (case place blank open_state of (r, st) \<Rightarrow> KStmt_enter r st)"

definition blocks_P_A_B :: cmd where
  "blocks_P_A_B = WithKStmt ''P'' [WithKStmt ''A'' [], WithKStmt ''B'' []]"


text \<open>
  \<open>returns_example\<close> is the trace of the function of example 2 in the docstring of
  \<^verbatim>\<open>return_\<close>: \<^verbatim>\<open>with if_(A[x] > 0): return_(1)\<close>, \<^verbatim>\<open>with else_(): return_(0)\<close>. \<open>dtype_of\<close>
  stands for \<^verbatim>\<open>util.get_tvm_dtype\<close>.
\<close>

definition returns_example :: "cmd list" where
  "returns_example =
     [IfC (GT (Load ''A'' (Var ''x'' ''int32'')) (IntImm 0)) [ReturnC (IntImm 1)],
      ElseC [ReturnC (IntImm 0)]]"

definition dtype_of :: "string option \<Rightarrow> string" where
  "dtype_of d = (case d of None \<Rightarrow> ''int32'' | Some t \<Rightarrow> t)"

section \<open>The fold of a scope\<close>

lemma fold_loop_foldr:
  "\<forall>e \<in> set es. scope_entry e \<Longrightarrow> fold_loop (rev es) R = Inr (foldr combine es R)"
proof (induction es arbitrary: R rule: rev_induct)
  case Nil
  show ?case by simp
next
  case (snoc x xs)
  then show ?case by (cases x) simp_all
qed

lemma spec_pop_scope_snoc_Obj: "spec_pop_scope (es @ [Obj s]) = foldr combine es s"
proof (induction es)
  case Nil
  show ?case by simp
next
  case (Cons e es)
  then show ?case by (cases es) simp_all
qed

lemma spec_pop_scope_snoc_Callable:
  "spec_pop_scope (es @ [Callable w]) = foldr combine es (w (Evaluate 0))"
proof (induction es)
  case Nil
  show ?case by simp
next
  case (Cons e es)
  then show ?case by (cases es) simp_all
qed

lemma fold_stmts_spec:
  assumes "\<forall>e \<in> set (butlast es). scope_entry e"
  shows "fold_stmts es = Inr (spec_pop_scope es)"
proof (cases es rule: rev_cases)
  case Nil
  then show ?thesis by (simp add: fold_stmts_def)
next
  case (snoc ys y)
  with assms have ys: "\<forall>e \<in> set ys. scope_entry e" by simp
  show ?thesis
  proof (cases y)
    case (Obj s)
    with snoc ys show ?thesis
      by (simp add: fold_stmts_def fold_loop_foldr spec_pop_scope_snoc_Obj)
  next
    case (Callable w)
    with snoc ys show ?thesis
      by (simp add: fold_stmts_def fold_loop_foldr spec_pop_scope_snoc_Callable)
  qed
qed

lemma seq_of_spec: "spec_pop_scope (map Obj ss) = seq_of ss"
  by (induction ss rule: seq_of.induct) simp_all

lemma spec_pop_scope_is_Stmt:
  assumes "\<forall>e \<in> set es. scope_entry e"
    and "\<forall>w. Callable w \<in> set es \<longrightarrow> (\<forall>x. is_Stmt x \<longrightarrow> is_Stmt (w x))"
  shows "is_Stmt (spec_pop_scope es)"
  using assms
proof (induction es rule: spec_pop_scope.induct)
  fix e :: entry and v va
  assume IH: "\<lbrakk>\<forall>e\<in>set (v # va). scope_entry e;
      \<forall>w. Callable w \<in> set (v # va) \<longrightarrow> (\<forall>x. is_Stmt x \<longrightarrow> is_Stmt (w x))\<rbrakk>
     \<Longrightarrow> is_Stmt (spec_pop_scope (v # va))"
    and a: "\<forall>e\<in>set (e # v # va). scope_entry e"
    and b: "\<forall>w. Callable w \<in> set (e # v # va) \<longrightarrow> (\<forall>x. is_Stmt x \<longrightarrow> is_Stmt (w x))"
  from a b have "is_Stmt (spec_pop_scope (v # va))" by (intro IH) auto
  with a b show "is_Stmt (spec_pop_scope (e # v # va))" by (cases e) auto
qed simp_all

text \<open>
  Claim C2. For a scope list of statements and wrappers, \<^verbatim>\<open>pop_stmt\<close> removes the top
  list and returns the fold the specification describes: a no-op is appended to a list
  that is empty or ends with a wrapper, the running result starts from the last
  statement, and the earlier entries are scanned right to left, a wrapper being applied
  to the running result and a statement put in sequence before it. The result is a
  statement when the wrappers map statements to statements. Folding a statement, a
  wrapper \<open>w\<close> and a second statement gives the sequence of the first and \<open>w\<close> of the
  second; folding statements alone gives their right-nested sequence, in order.
\<close>

theorem pop_stmt_folds_scope:
  "((\<forall>e \<in> set es. scope_entry e) \<longrightarrow>
      pop_stmt (b\<lparr>stmt_stack := below @ [es]\<rparr>)
        = (Inr (spec_pop_scope es), b\<lparr>stmt_stack := below\<rparr>))
   \<and> ((\<forall>e \<in> set es. scope_entry e)
        \<and> (\<forall>w. Callable w \<in> set es \<longrightarrow> (\<forall>x. is_Stmt x \<longrightarrow> is_Stmt (w x)))
        \<longrightarrow> is_Stmt (spec_pop_scope es))
   \<and> (is_Stmt S1 \<longrightarrow> fold_stmts [Obj S1, Callable w, Obj S2] = Inr (Block S1 (w S2)))
   \<and> ((\<forall>s \<in> set ss. is_Stmt s) \<longrightarrow> fold_stmts (map Obj ss) = Inr (seq_of ss))"
proof (intro conjI impI)
  assume a: "\<forall>e \<in> set es. scope_entry e"
  then have "\<forall>e \<in> set (butlast es). scope_entry e"
    by (auto dest: in_set_butlastD)
  then show "pop_stmt (b\<lparr>stmt_stack := below @ [es]\<rparr>)
        = (Inr (spec_pop_scope es), b\<lparr>stmt_stack := below\<rparr>)"
    by (simp add: pop_stmt_def fold_stmts_spec)
next
  assume "(\<forall>e \<in> set es. scope_entry e)
        \<and> (\<forall>w. Callable w \<in> set es \<longrightarrow> (\<forall>x. is_Stmt x \<longrightarrow> is_Stmt (w x)))"
  then show "is_Stmt (spec_pop_scope es)"
    by (simp add: spec_pop_scope_is_Stmt)
next
  assume "is_Stmt S1"
  then show "fold_stmts [Obj S1, Callable w, Obj S2] = Inr (Block S1 (w S2))"
    by (simp add: fold_stmts_def)
next
  assume a: "\<forall>s \<in> set ss. is_Stmt s"
  then have "\<forall>e \<in> set (map Obj ss). scope_entry e"
    by simp
  then have "\<forall>e \<in> set (butlast (map Obj ss)). scope_entry e"
    by (meson in_set_butlastD)
  then show "fold_stmts (map Obj ss) = Inr (seq_of ss)"
    by (simp add: fold_stmts_spec seq_of_spec)
qed

theorem pop_stmt_folds_scope_witness:
  "pop_stmt (blank\<lparr>stmt_stack := [[Obj Break], [Obj Break, Callable (While (IntImm 1)), Obj (Evaluate 7)]]\<rparr>)
     = (Inr (Block Break (While (IntImm 1) (Evaluate 7))), blank\<lparr>stmt_stack := [[Obj Break]]\<rparr>)
   \<and> is_Stmt (spec_pop_scope [Obj Break, Callable (While (IntImm 1)), Obj (Evaluate 7)])
   \<and> fold_stmts [Obj Break, Callable (While (IntImm 1)), Obj (Evaluate 7)]
       = Inr (Block Break (While (IntImm 1) (Evaluate 7)))
   \<and> fold_stmts (map Obj [Break, Evaluate 1, Return (IntImm 2)])
       = Inr (Block Break (Block (Evaluate 1) (Return (IntImm 2))))"
  using pop_stmt_folds_scope [where es = "[Obj Break, Callable (While (IntImm 1)), Obj (Evaluate 7)]"
      and b = blank and below = "[[Obj Break]]" and ?S1.0 = Break and w = "While (IntImm 1)"
      and ?S2.0 = "Evaluate 7" and ss = "[Break, Evaluate 1, Return (IntImm 2)]"]
  by simp

section \<open>What emit accepts and what the fold asserts\<close>

lemma fold_loop_asserts:
  "fold_loop xs R = Inl AssertionError \<longleftrightarrow> (\<exists>v. Obj v \<in> set xs \<and> \<not> is_Stmt v)"
proof (induction xs R rule: fold_loop.induct)
  case (1 stmt)
  show ?case by simp
next
  case (2 f ss stmt)
  then show ?case by simp
next
  case (3 s ss stmt)
  then show ?case by auto
qed

lemma fold_stmts_asserts:
  "fold_stmts es = Inl AssertionError \<longleftrightarrow> (\<exists>v. Obj v \<in> set (butlast es) \<and> \<not> is_Stmt v)"
proof (cases es rule: rev_cases)
  case Nil
  then show ?thesis by (simp add: fold_stmts_def)
next
  case (snoc ys y)
  then show ?thesis
    by (cases y) (simp_all add: fold_stmts_def fold_loop_asserts)
qed

text \<open>
  Claim C10. \<^verbatim>\<open>emit\<close> looks at \<^verbatim>\<open>has_break\<close> only: with the flag set it raises and leaves
  the block as it was, otherwise it appends the entry, whatever it is. \<^verbatim>\<open>pop_stmt\<close> raises
  AssertionError exactly when an entry below the final one is neither callable nor a
  statement node. So a value that is no statement is accepted by \<^verbatim>\<open>emit\<close>; the fold
  fails on it once another entry follows it, and returns normally while it is the last
  entry of the scope.
\<close>

theorem emit_accepts_any_value:
  "(has_break b \<longrightarrow>
      emit e b = (Inl (RuntimeError ''Cannot write statements after break''), b))
   \<and> (\<not> has_break b \<and> stmt_stack b \<noteq> [] \<longrightarrow>
      emit e b =
        (Inr (), b\<lparr>stmt_stack := butlast (stmt_stack b) @ [last (stmt_stack b) @ [e]]\<rparr>))
   \<and> (fold_stmts es = Inl AssertionError
        \<longleftrightarrow> (\<exists>v. Obj v \<in> set (butlast es) \<and> \<not> is_Stmt v))
   \<and> (\<not> is_Stmt v \<longrightarrow> fold_stmts (pre @ [Obj v, e']) = Inl AssertionError)
   \<and> ((\<forall>x \<in> set pre. scope_entry x) \<longrightarrow>
        fold_stmts (pre @ [Obj v]) = Inr (foldr combine pre v))"
proof (intro conjI impI)
  show "fold_stmts es = Inl AssertionError
        \<longleftrightarrow> (\<exists>v. Obj v \<in> set (butlast es) \<and> \<not> is_Stmt v)"
    by (rule fold_stmts_asserts)
next
  assume "\<not> is_Stmt v"
  then have "\<exists>u. Obj u \<in> set (butlast (pre @ [Obj v, e'])) \<and> \<not> is_Stmt u"
    by (auto simp: butlast_append)
  then show "fold_stmts (pre @ [Obj v, e']) = Inl AssertionError"
    by (simp only: fold_stmts_asserts)
next
  assume "\<forall>x \<in> set pre. scope_entry x"
  then show "fold_stmts (pre @ [Obj v]) = Inr (foldr combine pre v)"
    by (simp add: fold_stmts_def fold_loop_foldr)
qed (simp_all add: emit_def)

theorem emit_accepts_any_value_witness:
  "emit (Obj (PyInt 3)) (blank\<lparr>has_break := True\<rparr>)
     = (Inl (RuntimeError ''Cannot write statements after break''), blank\<lparr>has_break := True\<rparr>)
   \<and> emit (Obj (PyInt 3)) blank = (Inr (), blank\<lparr>stmt_stack := [[Obj (PyInt 3)]]\<rparr>)
   \<and> fold_stmts [Obj (PyInt 3), Obj Break] = Inl AssertionError
   \<and> fold_stmts [Obj Break, Obj (PyInt 3)] = Inr (Block Break (PyInt 3))"
  using emit_accepts_any_value [where b = "blank\<lparr>has_break := True\<rparr>" and e = "Obj (PyInt 3)"
      and v = "PyInt 3" and pre = "[]" and e' = "Obj Break"]
    emit_accepts_any_value [where b = blank and e = "Obj (PyInt 3)"
      and v = "PyInt 3" and pre = "[Obj Break]"]
  by (simp add: blank_def)

section \<open>Entry conditions of elif_ and else_\<close>

lemma replace_else_plain:
  "\<not> is_IfThenElse e \<Longrightarrow> replace_else (IfThenElse c t e) s = Inr (IfThenElse c t s)"
  by simp

text \<open>
  Claim C7. With a block open and a scope on its stack, \<^verbatim>\<open>elif_\<close> is accepted exactly when
  the last entry of the current scope is a conditional, whatever its else-branch, and
  raises \<^verbatim>\<open>elif_ can only follow an if_\<close> otherwise. \<^verbatim>\<open>else_\<close> has the stricter test: after
  a conditional it is accepted when the else-branch is unset and raises when it is set.
  So after a conditional whose else-branch is a recorded statement \<^verbatim>\<open>elif_\<close> does not
  fail; when it closes, the conditional is put back with the new conditional as its
  else-branch, and the statement recorded there before is gone.
\<close>

theorem elif_entry_condition:
  assumes "current st = cs @ [r]" and "stmt_stack (heap st r) = below @ [scope]"
  shows "(scope = xs @ [Obj (IfThenElse c' t e)] \<longrightarrow>
            ukg_elif c st = (Inr (r, IfThenElse c' t e), upd r take_prev st))
       \<and> ((\<forall>ys p. scope = ys @ [Obj p] \<longrightarrow> \<not> is_IfThenElse p) \<longrightarrow>
            ukg_elif c st = (Inl (RuntimeError ''elif_ can only follow an if_''), st))
       \<and> (scope = xs @ [Obj (IfThenElse c' t e)] \<and> \<not> truthy e \<longrightarrow>
            ukg_else st = (Inr (r, IfThenElse c' t e), upd r take_prev st))
       \<and> (scope = xs @ [Obj (IfThenElse c' t e)] \<and> truthy e \<longrightarrow>
            ukg_else st = (Inl (RuntimeError ''else_ can only follow an if_''), st))
       \<and> (scope = xs @ [Obj (IfThenElse c' t e)] \<and> \<not> is_IfThenElse e
            \<and> \<not> has_break (heap st r) \<longrightarrow>
            fst (exec g (ElifC c []) st) = Inr ()
            \<and> stmt_stack (heap (snd (exec g (ElifC c []) st)) r)
                = below @ [xs @ [Obj (IfThenElse c' t (IfThenElse c (Evaluate 0) PyNone))]])"
proof (intro conjI impI)
  assume "scope = xs @ [Obj (IfThenElse c' t e)]"
  with assms show "ukg_elif c st = (Inr (r, IfThenElse c' t e), upd r take_prev st)"
    by (simp add: ukg_elif_def get_current_def)
next
  assume a: "\<forall>ys p. scope = ys @ [Obj p] \<longrightarrow> \<not> is_IfThenElse p"
  show "ukg_elif c st = (Inl (RuntimeError ''elif_ can only follow an if_''), st)"
  proof (cases scope rule: rev_cases)
    case Nil
    with assms show ?thesis by (simp add: ukg_elif_def get_current_def)
  next
    case (snoc ys y)
    with a assms show ?thesis
      by (cases y) (simp_all add: ukg_elif_def get_current_def)
  qed
next
  assume "scope = xs @ [Obj (IfThenElse c' t e)] \<and> \<not> truthy e"
  with assms show "ukg_else st = (Inr (r, IfThenElse c' t e), upd r take_prev st)"
    by (simp add: ukg_else_def get_current_def)
next
  assume "scope = xs @ [Obj (IfThenElse c' t e)] \<and> truthy e"
  with assms show "ukg_else st = (Inl (RuntimeError ''else_ can only follow an if_''), st)"
    by (simp add: ukg_else_def get_current_def)
next
  assume a: "scope = xs @ [Obj (IfThenElse c' t e)] \<and> \<not> is_IfThenElse e
            \<and> \<not> has_break (heap st r)"
  with assms have el: "ukg_elif c st = (Inr (r, IfThenElse c' t e), upd r take_prev st)"
    by (simp add: ukg_elif_def get_current_def)
  from a assms have ex: "elif_exit_cb (IfThenElse c' t e) c (heap (upd r take_prev st) r)
      = (Inr (), (heap st r)\<lparr>stmt_stack := below
            @ [xs @ [Obj (IfThenElse c' t (IfThenElse c (Evaluate 0) PyNone))]],
           has_break := False\<rparr>)"
    by (simp add: elif_exit_cb_def pop_stmt_def fold_stmts_def take_prev_def upd_def emit_def
        replace_else_plain butlast_append)
  from el ex show "fst (exec g (ElifC c []) st) = Inr ()"
    by (simp add: with_exit_def on_block_def)
  from el ex show "stmt_stack (heap (snd (exec g (ElifC c []) st)) r)
      = below @ [xs @ [Obj (IfThenElse c' t (IfThenElse c (Evaluate 0) PyNone))]]"
    by (simp add: with_exit_def on_block_def)
qed

lemma st_if_else_facts:
  "current st_if_else = [] @ [0]"
  "stmt_stack (heap st_if_else 0) = [] @ [[Obj (IfThenElse (IntImm 1) Break (Evaluate 0))]]"
  "\<not> has_break (heap st_if_else 0)"
  by (simp_all add: st_if_else_def open_state_def place_def KStmt_enter_def upd_def
      start_state_def blank_def)

text \<open>
  The theorem at \<open>st_if_else\<close> and \<open>open_state\<close>, and the trace of \<^verbatim>\<open>if_\<close>, \<^verbatim>\<open>else_\<close>, \<^verbatim>\<open>elif_\<close>
  with one statement each: no call raises, and the statement of the \<^verbatim>\<open>else_\<close> body is not
  in the result.
\<close>

theorem elif_entry_condition_witness:
  "ukg_elif (IntImm 2) st_if_else
     = (Inr (0, IfThenElse (IntImm 1) Break (Evaluate 0)), upd 0 take_prev st_if_else)
   \<and> ukg_else st_if_else = (Inl (RuntimeError ''else_ can only follow an if_''), st_if_else)
   \<and> ukg_elif (IntImm 2) open_state
     = (Inl (RuntimeError ''elif_ can only follow an if_''), open_state)
   \<and> fst (exec (\<lambda>d. ''t'') (ElifC (IntImm 2) []) st_if_else) = Inr ()
   \<and> stmt_stack (heap (snd (exec (\<lambda>d. ''t'') (ElifC (IntImm 2) []) st_if_else)) 0)
       = [[Obj (IfThenElse (IntImm 1) Break (IfThenElse (IntImm 2) (Evaluate 0) PyNone))]]
   \<and> execs (\<lambda>d. ''t'')
        [IfC (IntImm 1) [EmitC (Obj (Evaluate 10))], ElseC [EmitC (Obj (Evaluate 20))],
         ElifC (IntImm 2) [EmitC (Obj (Evaluate 30))]] open_state
       = (Inr (), upd 0 (\<lambda>b. b\<lparr>stmt_stack :=
            [[Obj (IfThenElse (IntImm 1) (Evaluate 10)
                    (IfThenElse (IntImm 2) (Evaluate 30) PyNone))]]\<rparr>) open_state)"
proof -
  have t: "execs (\<lambda>d. ''t'')
        [IfC (IntImm 1) [EmitC (Obj (Evaluate 10))], ElseC [EmitC (Obj (Evaluate 20))],
         ElifC (IntImm 2) [EmitC (Obj (Evaluate 30))]] open_state
       = (Inr (), upd 0 (\<lambda>b. b\<lparr>stmt_stack :=
            [[Obj (IfThenElse (IntImm 1) (Evaluate 10)
                    (IfThenElse (IntImm 2) (Evaluate 30) PyNone))]]\<rparr>) open_state)"
    by (simp add: ukg_if_def ukg_else_def ukg_elif_def if_exit_cb_def else_exit_cb_def
        elif_exit_cb_def take_prev_def open_state_def start_state_def place_def
        KStmt_enter_def blank_def get_current_def upd_def on_block_def emit_def pop_stmt_def
        fold_stmts_def with_exit_def push_scope_def)
  have o: "current open_state = [] @ [0]" "stmt_stack (heap open_state 0) = [] @ [[]]"
    by (simp_all add: open_state_def place_def KStmt_enter_def start_state_def blank_def)
  have a: "ukg_elif (IntImm 2) st_if_else
     = (Inr (0, IfThenElse (IntImm 1) Break (Evaluate 0)), upd 0 take_prev st_if_else)
   \<and> ukg_else st_if_else = (Inl (RuntimeError ''else_ can only follow an if_''), st_if_else)
   \<and> fst (exec (\<lambda>d. ''t'') (ElifC (IntImm 2) []) st_if_else) = Inr ()
   \<and> stmt_stack (heap (snd (exec (\<lambda>d. ''t'') (ElifC (IntImm 2) []) st_if_else)) 0)
       = [[Obj (IfThenElse (IntImm 1) Break (IfThenElse (IntImm 2) (Evaluate 0) PyNone))]]"
    using elif_entry_condition [OF st_if_else_facts(1,2), where xs = "[]" and c' = "IntImm 1"
        and t = Break and e = "Evaluate 0" and c = "IntImm 2" and g = "\<lambda>d. ''t''"]
      st_if_else_facts(3)
    by (simp del: exec.simps)
  have b: "ukg_elif (IntImm 2) open_state
     = (Inl (RuntimeError ''elif_ can only follow an if_''), open_state)"
    using elif_entry_condition [OF o, where c = "IntImm 2"] by simp
  from a b t show ?thesis by blast
qed

section \<open>Constructing and closing a block\<close>

lemma read_name_blank: "read_name st blank = Inl (ValueError ''Member name not found'')"
  by (simp add: read_name_def getattr_def getattr_hit_def blank_def)

lemma init_raises:
  "\<exists>e. KStmt_init nm dt shape st = Inl e"
  "get_len st = 0 \<Longrightarrow> KStmt_init nm dt shape st = Inl (ValueError ''Member name not found'')"
  by (auto simp: KStmt_init_def read_name_blank split: sum.splits)

lemma new_raises: "\<exists>e. new_KStmt nm dt shape st = (Inl e, st)"
  using init_raises(1) [of nm dt shape st] by (auto simp: new_KStmt_def)

lemma reconcile_frame:
  "current (reconcile r st) = current st"
  "p \<noteq> r \<Longrightarrow> heap (reconcile r st) p = heap st p"
  "late (heap (reconcile r st) r) = late (heap st r)"
  "input_KStmts (heap (reconcile r st) r) = last_subKStmts (heap st r) \<union> input_KStmts (heap st r)"
  "last_subKStmts (heap (reconcile r st) r) = last_subKStmts (heap st r)"
  by (simp_all add: reconcile_def upd_def)

lemma exit_unbuilt:
  assumes "late (heap st r) = None" and "KStmt_exit r st = (x, st')"
  shows "x = Inl (Unfollowed ''_buf'')
         \<or> (\<exists>m. x = Inl (ValueError m)) \<and> st' = reconcile r st"
  using assms
  by (auto simp: KStmt_exit_def Let_def reconcile_frame read_inputs_def getattr_def
      split: sum.splits if_splits option.splits)

lemma reconcile_empty:
  assumes "input_KStmts (heap st r) = {}" and "last_subKStmts (heap st r) = {}"
  shows "reconcile r st = st"
proof -
  have "(heap st r)\<lparr>input_KStmts := last_subKStmts (heap st r) \<union> input_KStmts (heap st r)\<rparr>
          = heap st r"
    using assms by simp
  then show ?thesis by (simp add: reconcile_def upd_def)
qed

lemma exit_blank:
  assumes "late (heap st r) = None" and "input_KStmts (heap st r) = {}"
    and "last_subKStmts (heap st r) = {}" and "var_dict (heap st r) ''_buf'' = None"
    and "lhs_tensors (heap st r) = {}"
  shows "KStmt_exit r st = (Inl (ValueError ''Member _buf not found''), st)"
  using assms
  by (simp add: KStmt_exit_def Let_def reconcile_empty read_inputs_def getattr_def
      getattr_hit_def)

lemma absorb_sets:
  assumes "p \<noteq> r" and "absorb p r nm st = (x, st')"
  shows "input_KStmts (heap st' p)
           = (input_KStmts (heap st p) \<union> input_KStmts (heap st r)) - last_subKStmts (heap st p)"
    and "last_subKStmts (heap st' p)
           = insert r (last_subKStmts (heap st p)) - input_KStmts (heap st r)"
  using assms
  by (auto simp: absorb_def upd_def Let_def split: sum.splits)

text \<open>
  Claim C3. \<^verbatim>\<open>__init__\<close> raises on every call (ValueError for \<^verbatim>\<open>name\<close> when no block is
  open), so \<^verbatim>\<open>with KStmt(...)\<close> raises before its body and leaves the state as it was: no
  block is built, opened or closed. On an object without late attributes \<^verbatim>\<open>__exit__\<close>
  does not get to the parent either: it raises ValueError with \<^verbatim>\<open>KStmt._current\<close> and
  every other object as before (unless \<^verbatim>\<open>__getattr__\<close> finds something under \<^verbatim>\<open>"_buf"\<close>,
  which the model does not follow); on the object as line 98 leaves it the error is
  that of \<^verbatim>\<open>_buf\<close> and the state is unchanged. The assignments of lines 143 to 148, which
  these runs never reach, are the two updates of the claim.
\<close>

theorem close_before_parent_update:
  "(\<exists>e. KStmt_init nm dt shape st = Inl e)
   \<and> (get_len st = 0 \<longrightarrow>
        KStmt_init nm dt shape st = Inl (ValueError ''Member name not found''))
   \<and> (\<exists>e. exec g (WithKStmt nm body) st = (Inl e, st))
   \<and> (late (heap st r) = None \<and> KStmt_exit r st = (x, st') \<longrightarrow>
        x = Inl (Unfollowed ''_buf'')
        \<or> (\<exists>m. x = Inl (ValueError m)) \<and> current st' = current st
          \<and> (\<forall>p. p \<noteq> r \<longrightarrow> heap st' p = heap st p))
   \<and> (late (heap st r) = None \<and> input_KStmts (heap st r) = {}
        \<and> last_subKStmts (heap st r) = {} \<and> var_dict (heap st r) ''_buf'' = None
        \<and> lhs_tensors (heap st r) = {} \<longrightarrow>
        KStmt_exit r st = (Inl (ValueError ''Member _buf not found''), st))
   \<and> (p \<noteq> r \<and> absorb p r cn st = (y, st2) \<longrightarrow>
        input_KStmts (heap st2 p)
          = (input_KStmts (heap st p) \<union> input_KStmts (heap st r)) - last_subKStmts (heap st p)
        \<and> last_subKStmts (heap st2 p)
          = (last_subKStmts (heap st p) \<union> {r}) - input_KStmts (heap st r))"
proof (intro conjI impI)
  show "\<exists>e. KStmt_init nm dt shape st = Inl e" by (rule init_raises(1))
next
  assume "get_len st = 0"
  then show "KStmt_init nm dt shape st = Inl (ValueError ''Member name not found'')"
    by (rule init_raises(2))
next
  from new_raises [of nm None "[]" st]
  show "\<exists>e. exec g (WithKStmt nm body) st = (Inl e, st)" by auto
next
  assume h: "late (heap st r) = None \<and> KStmt_exit r st = (x, st')"
  from exit_unbuilt [of st r x st'] h
  show "x = Inl (Unfollowed ''_buf'')
        \<or> (\<exists>m. x = Inl (ValueError m)) \<and> current st' = current st
          \<and> (\<forall>p. p \<noteq> r \<longrightarrow> heap st' p = heap st p)"
    by (auto simp: reconcile_frame)
next
  assume "late (heap st r) = None \<and> input_KStmts (heap st r) = {}
        \<and> last_subKStmts (heap st r) = {} \<and> var_dict (heap st r) ''_buf'' = None
        \<and> lhs_tensors (heap st r) = {}"
  then show "KStmt_exit r st = (Inl (ValueError ''Member _buf not found''), st)"
    by (simp add: exit_blank)
next
  assume h: "p \<noteq> r \<and> absorb p r cn st = (y, st2)"
  then show "input_KStmts (heap st2 p)
          = (input_KStmts (heap st p) \<union> input_KStmts (heap st r)) - last_subKStmts (heap st p)"
    using absorb_sets(1) [of p r cn st y st2] by simp
  from h show "last_subKStmts (heap st2 p)
          = (last_subKStmts (heap st p) \<union> {r}) - input_KStmts (heap st r)"
    using absorb_sets(2) [of p r cn st y st2] by simp
qed

lemmas eval_defs = open_state_def start_state_def place_def KStmt_enter_def blank_def
  get_len_def get_current_def upd_def on_block_def emit_def pop_stmt_def fold_stmts_def
  with_exit_def Let_def push_scope_def

lemmas block_defs = KStmt_init_def new_KStmt_def read_name_def read_prefix_def getattr_def
  getattr_hit_def KStmt_exit_def reconcile_def read_inputs_def readable_def st_child_def
  blocks_P_A_B_def

text \<open>
  The theorem at the scenario of the claim, a parent with the children \<^verbatim>\<open>"A"\<close> and \<^verbatim>\<open>"B"\<close>:
  from \<open>start_state\<close> the constructor of the parent raises. With an object placed as parent
  (\<open>open_state\<close>) the constructor of a child raises on the parent's \<^verbatim>\<open>name_with_prefix\<close>;
  with a child placed as well (\<open>st_child\<close>) closing the child raises and the parent's
  sets stay empty.
\<close>

theorem close_before_parent_update_witness:
  "exec (\<lambda>d. ''t'') blocks_P_A_B start_state
     = (Inl (ValueError ''Member name not found''), start_state)
   \<and> exec (\<lambda>d. ''t'') (WithKStmt ''A'' []) open_state
     = (Inl (ValueError ''Member name_with_prefix not found''), open_state)
   \<and> current st_child = [0, 1]
   \<and> KStmt_exit 1 st_child = (Inl (ValueError ''Member _buf not found''), st_child)
   \<and> input_KStmts (heap (snd (KStmt_exit 1 st_child)) 0) = {}
   \<and> last_subKStmts (heap (snd (KStmt_exit 1 st_child)) 0) = {}
   \<and> KStmt_exit 0 open_state = (Inl (ValueError ''Member _buf not found''), open_state)"
proof -
  have s: "get_len start_state = 0" "late (heap st_child 1) = None"
    "input_KStmts (heap st_child 1) = {}" "last_subKStmts (heap st_child 1) = {}"
    "var_dict (heap st_child 1) ''_buf'' = None" "lhs_tensors (heap st_child 1) = {}"
    "late (heap open_state 0) = None"
    "input_KStmts (heap open_state 0) = {}" "last_subKStmts (heap open_state 0) = {}"
    "var_dict (heap open_state 0) ''_buf'' = None" "lhs_tensors (heap open_state 0) = {}"
    "current st_child = [0, 1]"
    "input_KStmts (heap st_child 0) = {}" "last_subKStmts (heap st_child 0) = {}"
    by (simp_all add: block_defs eval_defs)
  have a: "KStmt_init ''P'' None [] start_state = Inl (ValueError ''Member name not found'')"
    using close_before_parent_update [where st = start_state and nm = "''P''" and dt = None
        and shape = "[]" and r = 0 and x = "Inr ()" and st' = start_state and p = 1
        and g = "\<lambda>d. ''t''" and body = "[]" and cn = "[]" and y = "Inr ()"
        and ?st2.0 = start_state] s
    by (simp del: exec.simps)
  then have e1: "exec (\<lambda>d. ''t'') blocks_P_A_B start_state
     = (Inl (ValueError ''Member name not found''), start_state)"
    by (simp add: blocks_P_A_B_def new_KStmt_def)
  have e2: "exec (\<lambda>d. ''t'') (WithKStmt ''A'' []) open_state
     = (Inl (ValueError ''Member name_with_prefix not found''), open_state)"
    by (simp add: block_defs eval_defs)
  have x1: "KStmt_exit 1 st_child = (Inl (ValueError ''Member _buf not found''), st_child)"
    using close_before_parent_update [where st = st_child and nm = "''P''" and dt = None
        and shape = "[]" and r = 1 and x = "Inr ()" and st' = start_state and p = 0
        and g = "\<lambda>d. ''t''" and body = "[]" and cn = "[]" and y = "Inr ()"
        and ?st2.0 = start_state] s
    by (simp del: exec.simps)
  have x0: "KStmt_exit 0 open_state = (Inl (ValueError ''Member _buf not found''), open_state)"
    using close_before_parent_update [where st = open_state and nm = "''P''" and dt = None
        and shape = "[]" and r = 0 and x = "Inr ()" and st' = start_state and p = 1
        and g = "\<lambda>d. ''t''" and body = "[]" and cn = "[]" and y = "Inr ()"
        and ?st2.0 = start_state] s
    by (simp del: exec.simps)
  from e1 e2 x1 x0 s show ?thesis by (simp del: exec.simps)
qed

section \<open>Closing a block: inputs against last writers\<close>



section \<open>Break finality\<close>

lemma pop_two:
  "stmt_stack b = below @ [outer, sc] \<Longrightarrow>
   pop_stmt b = (fold_stmts sc, b\<lparr>stmt_stack := below @ [outer]\<rparr>)"
  by (simp add: pop_stmt_def butlast_append)

lemma emit_unbroken:
  "\<not> has_break b \<Longrightarrow> stmt_stack b = below @ [outer] \<Longrightarrow>
   emit e b = (Inr (), b\<lparr>stmt_stack := below @ [outer @ [e]]\<rparr>)"
  by (simp add: emit_def)

lemma break_sets_flag:
  assumes "ukg_break st = (Inr (), st')" and "current st = cs @ [r]"
  shows "has_break (heap st' r) \<and> current st' = current st"
  using assms
  by (auto simp: ukg_break_def get_current_def on_block_def upd_def
      split: if_splits prod.splits sum.splits)

lemma for_exit_broken:
  assumes "has_break (heap st r)"
  shows "(\<exists>x. fst (for_exit_cb r lv bg ext kind st) = Inl x)
         \<and> heap (snd (for_exit_cb r lv bg ext kind st)) r = heap st r"
  using assms
  by (auto simp: for_exit_cb_def on_block_def emit_def split: sum.splits option.splits)

text \<open>
  Claim C6. After a \<^verbatim>\<open>break_\<close> that returns, the current block carries the break flag
  and an emit into it raises RuntimeError ``Cannot write statements after break'',
  leaving the state as it was; so does emit on any block whose flag is set. On a block
  with an enclosing scope and a scope that folds, broken or not, the exit callbacks of
  \<^verbatim>\<open>if_\<close>, \<^verbatim>\<open>while_\<close>, \<^verbatim>\<open>else_\<close> and \<^verbatim>\<open>elif_\<close> return, with the flag cleared and their node
  appended to the enclosing scope; a block with the flag clear accepts an emit into its
  top scope and into a scope opened next. The exit callback of \<^verbatim>\<open>for_\<close> does not clear
  the flag: on a block whose flag is set it raises and leaves the block as it was, flag
  set; with a recognized kind and the class attribute in place the error is that of
  emit.
\<close>

theorem break_finality:
  "(ukg_break st = (Inr (), st') \<and> current st = cs @ [r] \<longrightarrow>
      has_break (heap st' r)
      \<and> exec g (EmitC e) st' = (Inl (RuntimeError ''Cannot write statements after break''), st'))
   \<and> (has_break b \<longrightarrow>
        emit e b = (Inl (RuntimeError ''Cannot write statements after break''), b))
   \<and> (stmt_stack b = below @ [outer, sc] \<and> fold_stmts sc = Inr body \<longrightarrow>
        if_exit_cb c b
          = (Inr (), b\<lparr>has_break := False,
                       stmt_stack := below @ [outer @ [Obj (IfThenElse c body PyNone)]]\<rparr>)
        \<and> while_exit_cb c b
          = (Inr (), b\<lparr>has_break := False, for_level := for_level b - 1,
                       stmt_stack := below @ [outer @ [Obj (While c body)]]\<rparr>)
        \<and> (replace_else prev body = Inr s \<longrightarrow>
             else_exit_cb prev b
               = (Inr (), b\<lparr>has_break := False, stmt_stack := below @ [outer @ [Obj s]]\<rparr>))
        \<and> (replace_else prev (IfThenElse c body PyNone) = Inr s \<longrightarrow>
             elif_exit_cb prev c b
               = (Inr (), b\<lparr>has_break := False, stmt_stack := below @ [outer @ [Obj s]]\<rparr>)))
   \<and> (\<not> has_break b \<and> stmt_stack b = below @ [outer] \<longrightarrow>
        emit e b = (Inr (), b\<lparr>stmt_stack := below @ [outer @ [e]]\<rparr>)
        \<and> emit e (push_scope b) = (Inr (), b\<lparr>stmt_stack := below @ [outer, [e]]\<rparr>))
   \<and> (has_break (heap sf q) \<longrightarrow>
        (\<exists>x. fst (for_exit_cb q lv bg ext kind sf) = Inl x)
        \<and> heap (snd (for_exit_cb q lv bg ext kind sf)) q = heap sf q)
   \<and> (has_break (heap sf q) \<and> kind_id kind = Inr k \<and> cls_for_level sf = Some l \<longrightarrow>
        for_exit_cb q lv bg ext kind sf
          = (Inl (RuntimeError ''Cannot write statements after break''),
             sf\<lparr>cls_has_break := Some False, cls_for_level := Some (l + 1)\<rparr>))"
proof (intro conjI impI)
  assume h: "ukg_break st = (Inr (), st') \<and> current st = cs @ [r]"
  then have f: "has_break (heap st' r)" and c: "current st' = cs @ [r]"
    using break_sets_flag [of st st' cs r] by simp_all
  show "has_break (heap st' r)" by (rule f)
  show "exec g (EmitC e) st' = (Inl (RuntimeError ''Cannot write statements after break''), st')"
    using f c by (simp add: get_current_def on_block_def emit_def)
next
  assume "has_break b"
  then show "emit e b = (Inl (RuntimeError ''Cannot write statements after break''), b)"
    by (simp add: emit_def)
next
  assume h: "stmt_stack b = below @ [outer, sc] \<and> fold_stmts sc = Inr body"
  then have p: "pop_stmt b = (Inr body, b\<lparr>stmt_stack := below @ [outer]\<rparr>)"
    by (simp add: pop_two)
  show "if_exit_cb c b
          = (Inr (), b\<lparr>has_break := False,
                       stmt_stack := below @ [outer @ [Obj (IfThenElse c body PyNone)]]\<rparr>)"
    by (simp add: if_exit_cb_def p emit_def)
  show "while_exit_cb c b
          = (Inr (), b\<lparr>has_break := False, for_level := for_level b - 1,
                       stmt_stack := below @ [outer @ [Obj (While c body)]]\<rparr>)"
    by (simp add: while_exit_cb_def p emit_def)
  {
    assume "replace_else prev body = Inr s"
    then show "else_exit_cb prev b
               = (Inr (), b\<lparr>has_break := False, stmt_stack := below @ [outer @ [Obj s]]\<rparr>)"
      by (simp add: else_exit_cb_def p emit_def)
  }
  {
    assume "replace_else prev (IfThenElse c body PyNone) = Inr s"
    then show "elif_exit_cb prev c b
               = (Inr (), b\<lparr>has_break := False, stmt_stack := below @ [outer @ [Obj s]]\<rparr>)"
      by (simp add: elif_exit_cb_def p emit_def)
  }
next
  assume h: "\<not> has_break b \<and> stmt_stack b = below @ [outer]"
  then show "emit e b = (Inr (), b\<lparr>stmt_stack := below @ [outer @ [e]]\<rparr>)"
    by (simp add: emit_unbroken)
  from h show "emit e (push_scope b) = (Inr (), b\<lparr>stmt_stack := below @ [outer, [e]]\<rparr>)"
    by (simp add: emit_def push_scope_def butlast_append)
next
  assume "has_break (heap sf q)"
  then show "\<exists>x. fst (for_exit_cb q lv bg ext kind sf) = Inl x"
    "heap (snd (for_exit_cb q lv bg ext kind sf)) q = heap sf q"
    using for_exit_broken [of sf q lv bg ext kind] by simp_all
next
  assume "has_break (heap sf q) \<and> kind_id kind = Inr k \<and> cls_for_level sf = Some l"
  then show "for_exit_cb q lv bg ext kind sf
          = (Inl (RuntimeError ''Cannot write statements after break''),
             sf\<lparr>cls_has_break := Some False, cls_for_level := Some (l + 1)\<rparr>)"
    by (simp add: for_exit_cb_def on_block_def emit_def)
qed

lemmas construct_defs = ukg_if_def ukg_while_def ukg_break_def ukg_else_def ukg_elif_def
  if_exit_cb_def else_exit_cb_def elif_exit_cb_def while_exit_cb_def take_prev_def
  st_loop_if_def st_broken_def

lemmas loop_defs = ukg_for_def for_open_def for_exit_cb_def read_nidx_def default_name_def
  getattr_def getattr_hit_def kind_id_def loop_extent_def st_counted_def for_if_break_def

text \<open>
  The theorem at a block broken inside \<^verbatim>\<open>if_\<close> inside \<^verbatim>\<open>while_\<close> (\<open>st_broken\<close>): the \<^verbatim>\<open>if_\<close>
  closes, clears the flag, and the next emit is accepted; the whole trace
  \<open>while_if_break\<close> builds its loop. And at a block broken inside \<^verbatim>\<open>for_\<close> inside
  \<^verbatim>\<open>while_\<close> (\<open>st_for_broken\<close>): closing the \<^verbatim>\<open>for_\<close> raises.
\<close>

theorem break_finality_witness:
  "has_break (heap st_broken 0)
   \<and> exec (\<lambda>d. ''t'') (EmitC (Obj (Evaluate 1))) st_broken
       = (Inl (RuntimeError ''Cannot write statements after break''), st_broken)
   \<and> stmt_stack (heap st_broken 0) = [[], [], [Obj Break]]
   \<and> if_exit_cb (IntImm 2) (heap st_broken 0)
       = (Inr (), (heap st_broken 0)\<lparr>has_break := False,
            stmt_stack := [[], [Obj (IfThenElse (IntImm 2) Break PyNone)]]\<rparr>)
   \<and> emit (Obj (Evaluate 5)) (snd (if_exit_cb (IntImm 2) (heap st_broken 0)))
       = (Inr (), (heap st_broken 0)\<lparr>has_break := False,
            stmt_stack := [[], [Obj (IfThenElse (IntImm 2) Break PyNone), Obj (Evaluate 5)]]\<rparr>)
   \<and> exec (\<lambda>d. ''t'') while_if_break open_state
       = (Inr (), upd 0 (\<lambda>b. b\<lparr>stmt_stack :=
            [[Obj (While (IntImm 1)
                    (Block (IfThenElse (IntImm 2) Break PyNone) (Evaluate 5)))]]\<rparr>) open_state)
   \<and> has_break (heap st_for_broken 0)
   \<and> for_exit_cb 0 (Var ''x'' ''int32'') (IntImm 0) (IntImm 5) ''serial'' st_for_broken
       = (Inl (RuntimeError ''Cannot write statements after break''),
          st_for_broken\<lparr>cls_has_break := Some False, cls_for_level := Some 2\<rparr>)
   \<and> fst (exec (\<lambda>d. ''t'') while_for_break st_counted)
       = Inl (RuntimeError ''Cannot write statements after break'')"
proof -
  have br: "ukg_break st_loop_if = (Inr (), st_broken)" "current st_loop_if = [] @ [0]"
    by (simp_all add: construct_defs eval_defs)
  have sb: "stmt_stack (heap st_broken 0) = [[]] @ [[], [Obj Break]]"
    "fold_stmts [Obj Break] = Inr Break"
    by (simp_all add: construct_defs eval_defs)
  have fb: "has_break (heap st_for_broken 0)" "kind_id ''serial'' = Inr SERIAL"
    "cls_for_level st_for_broken = Some 1"
    by (simp_all add: st_for_broken_def construct_defs loop_defs eval_defs)
  have t1: "has_break (heap st_broken 0)
    \<and> exec (\<lambda>d. ''t'') (EmitC (Obj (Evaluate 1))) st_broken
       = (Inl (RuntimeError ''Cannot write statements after break''), st_broken)"
    and t2: "if_exit_cb (IntImm 2) (heap st_broken 0)
       = (Inr (), (heap st_broken 0)\<lparr>has_break := False,
            stmt_stack := [[], [Obj (IfThenElse (IntImm 2) Break PyNone)]]\<rparr>)"
    and t3: "for_exit_cb 0 (Var ''x'' ''int32'') (IntImm 0) (IntImm 5) ''serial'' st_for_broken
       = (Inl (RuntimeError ''Cannot write statements after break''),
          st_for_broken\<lparr>cls_has_break := Some False, cls_for_level := Some 2\<rparr>)"
    using break_finality [where st = st_loop_if and st' = st_broken and cs = "[]" and r = 0
        and g = "\<lambda>d. ''t''" and e = "Obj (Evaluate 1)" and b = "heap st_broken 0"
        and below = "[[]]" and outer = "[]" and sc = "[Obj Break]" and body = Break
        and c = "IntImm 2" and prev = "IfThenElse (IntImm 3) Break PyNone"
        and s = "IfThenElse (IntImm 3) Break Break" and sf = st_for_broken and q = 0
        and lv = "Var ''x'' ''int32''" and bg = "IntImm 0" and ext = "IntImm 5"
        and kind = "''serial''" and k = SERIAL and l = 1]
      br sb fb
    by (simp_all del: exec.simps)
  have t4: "emit (Obj (Evaluate 5)) (snd (if_exit_cb (IntImm 2) (heap st_broken 0)))
       = (Inr (), (heap st_broken 0)\<lparr>has_break := False,
            stmt_stack := [[], [Obj (IfThenElse (IntImm 2) Break PyNone), Obj (Evaluate 5)]]\<rparr>)"
    using break_finality [where e = "Obj (Evaluate 5)"
        and b = "(heap st_broken 0)\<lparr>has_break := False,
            stmt_stack := [[], [Obj (IfThenElse (IntImm 2) Break PyNone)]]\<rparr>"
        and below = "[[]]" and outer = "[Obj (IfThenElse (IntImm 2) Break PyNone)]"
        and st = st_loop_if and st' = st_broken and cs = "[]" and r = 0
        and g = "\<lambda>d. ''t''" and sc = "[]" and body = Break
        and c = "IntImm 2" and prev = "IfThenElse (IntImm 3) Break PyNone"
        and s = "IfThenElse (IntImm 3) Break Break" and sf = st_for_broken and q = 0
        and lv = "Var ''x'' ''int32''" and bg = "IntImm 0" and ext = "IntImm 5"
        and kind = "''serial''" and k = SERIAL and l = 1] t2
    by (simp del: exec.simps)
  have e1: "exec (\<lambda>d. ''t'') while_if_break open_state
       = (Inr (), upd 0 (\<lambda>b. b\<lparr>stmt_stack :=
            [[Obj (While (IntImm 1)
                    (Block (IfThenElse (IntImm 2) Break PyNone) (Evaluate 5)))]]\<rparr>) open_state)"
    by (simp add: while_if_break_def construct_defs eval_defs)
  have e2: "fst (exec (\<lambda>d. ''t'') while_for_break st_counted)
       = Inl (RuntimeError ''Cannot write statements after break'')"
    by (simp add: while_for_break_def construct_defs loop_defs eval_defs)
  from t1 t2 t3 t4 e1 e2 sb(1) fb(1) show ?thesis
    by (simp del: exec.simps)
qed

section \<open>Loop depth and break_\<close>

lemma with_exit_returns: "fst (with_exit res cb) = Inr u \<Longrightarrow> fst res = Inr u"
  by (auto simp: with_exit_def split: prod.splits sum.splits)

lemma for_keeps_depth:
  assumes "ukg_for begin_v end_v nm dtype st = (Inr (r, lv, ext), st1)"
  shows "r = last (current st) \<and> current st \<noteq> [] \<and> current st1 = current st
         \<and> for_level (heap st1 r) = for_level (heap st r)
         \<and> ext = loop_extent begin_v end_v"
  using assms
  by (auto simp: ukg_for_def for_open_def get_current_def upd_def push_scope_def Let_def
      split: if_splits sum.splits option.splits)

lemma if_keeps_depth:
  assumes "ukg_if c st = (Inr r, st1)"
  shows "r = last (current st) \<and> current st1 = current st
         \<and> for_level (heap st1 r) = for_level (heap st r)"
  using assms
  by (auto simp: ukg_if_def get_current_def upd_def push_scope_def split: if_splits)

lemma break_outside_loop:
  assumes "current st \<noteq> []"
  shows "fst (ukg_break st) = Inl (RuntimeError ''break_ must be used inside a for/while loop'')
         \<longleftrightarrow> for_level (heap st (last (current st))) = 0"
  using assms
  by (auto simp: ukg_break_def get_current_def on_block_def emit_def upd_def
      split: if_splits prod.splits sum.splits)

lemma if_break_raises:
  assumes "current st \<noteq> []" and "for_level (heap st (last (current st))) = 0"
  shows "\<exists>e. fst (exec g (IfC c [BreakC]) st) = Inl e"
proof (cases "fst (exec g (IfC c [BreakC]) st)")
  case (Inl e)
  then show ?thesis by blast
next
  case (Inr u)
  obtain x st1 where i: "ukg_if c st = (x, st1)" by (cases "ukg_if c st")
  with assms have x: "x = Inr (last (current st))"
    by (auto simp: ukg_if_def get_current_def)
  from i x if_keeps_depth [of c st "last (current st)" st1] assms
  have d: "current st1 \<noteq> []" "for_level (heap st1 (last (current st1))) = 0" by simp_all
  from Inr i x have "fst (with_exit (execs g [BreakC] st1)
                        (on_block (last (current st)) (if_exit_cb c))) = Inr u"
    by simp
  then have "fst (execs g [BreakC] st1) = Inr u" by (rule with_exit_returns)
  moreover from d have "fst (ukg_break st1)
      = Inl (RuntimeError ''break_ must be used inside a for/while loop'')"
    by (simp add: break_outside_loop)
  ultimately show ?thesis
    by (cases "ukg_break st1") (auto split: sum.splits)
qed

text \<open>
  Claim C5. With a block open, \<^verbatim>\<open>break_\<close> raises RuntimeError ``break_ must be used inside a
  for/while loop'' exactly when the current block's \<^verbatim>\<open>for_level\<close> is 0. \<^verbatim>\<open>while_\<close> raises the
  block's \<^verbatim>\<open>for_level\<close> by one; \<^verbatim>\<open>for_\<close> leaves it as it was (it adds to the attribute of
  the class). So in a block that is not inside a while loop, the construction
  \<^verbatim>\<open>with for_(b, e, ...): with if_(c): break_()\<close> raises, whatever the bounds, the name, the
  kind and the condition: it does not build the loop the claim describes.
\<close>

theorem break_loop_depth:
  "(current st \<noteq> [] \<longrightarrow>
      (fst (ukg_break st) = Inl (RuntimeError ''break_ must be used inside a for/while loop'')
       \<longleftrightarrow> for_level (heap st (last (current st))) = 0))
   \<and> (ukg_while c st = (Inr r, st1) \<longrightarrow>
        r = last (current st) \<and> for_level (heap st1 r) = for_level (heap st r) + 1)
   \<and> (ukg_for begin_v end_v nm dtype st = (Inr (r, lv, ext), st1) \<longrightarrow>
        r = last (current st) \<and> for_level (heap st1 r) = for_level (heap st r))
   \<and> (current st \<noteq> [] \<and> for_level (heap st (last (current st))) = 0 \<longrightarrow>
        (\<exists>e. fst (exec g (ForC begin_v end_v nm dtype kind [IfC c [BreakC]]) st) = Inl e))"
proof (intro conjI impI)
  assume "current st \<noteq> []"
  then show "fst (ukg_break st) = Inl (RuntimeError ''break_ must be used inside a for/while loop'')
       \<longleftrightarrow> for_level (heap st (last (current st))) = 0"
    by (rule break_outside_loop)
next
  assume "ukg_while c st = (Inr r, st1)"
  then show "r = last (current st)" "for_level (heap st1 r) = for_level (heap st r) + 1"
    by (auto simp: ukg_while_def get_current_def upd_def push_scope_def split: if_splits)
next
  assume "ukg_for begin_v end_v nm dtype st = (Inr (r, lv, ext), st1)"
  then show "r = last (current st)" "for_level (heap st1 r) = for_level (heap st r)"
    using for_keeps_depth by blast+
next
  assume a: "current st \<noteq> [] \<and> for_level (heap st (last (current st))) = 0"
  let ?t = "ForC begin_v end_v nm dtype kind [IfC c [BreakC]]"
  show "\<exists>e. fst (exec g ?t st) = Inl e"
  proof (cases "fst (exec g ?t st)")
    case (Inl e)
    then show ?thesis by blast
  next
    case (Inr u)
    obtain x st2 where f: "ukg_for begin_v end_v nm dtype st = (x, st2)"
      by (cases "ukg_for begin_v end_v nm dtype st")
    with Inr obtain q lv2 ext2 where x: "x = Inr (q, lv2, ext2)"
      by (cases x) auto
    from f x for_keeps_depth [of begin_v end_v nm dtype st q lv2 ext2 st2] a
    have d: "current st2 \<noteq> []" "for_level (heap st2 (last (current st2))) = 0" by auto
    from Inr f x have "fst (with_exit (execs g [IfC c [BreakC]] st2)
                          (for_exit_cb q lv2 begin_v ext2 kind)) = Inr u"
      by simp
    then have r: "fst (execs g [IfC c [BreakC]] st2) = Inr u" by (rule with_exit_returns)
    from if_break_raises [OF d] obtain e where "fst (exec g (IfC c [BreakC]) st2) = Inl e"
      by blast
    with r show ?thesis
      by (cases "exec g (IfC c [BreakC]) st2") (auto split: sum.splits)
  qed
qed

text \<open>
  The theorem at \<open>open_state\<close> and \<open>st_counted\<close>, with the exception each construction ends in:
  \<^verbatim>\<open>for i in [0,5): if A[i] > 3: break\<close> raises ValueError on \<^verbatim>\<open>nidx\<close> in a block as the
  assignments of the constructor leave it, AttributeError on \<^verbatim>\<open>KStmt.for_level\<close> when the loop is given a name,
  and the error of \<^verbatim>\<open>break_\<close> when both attributes are in place.
\<close>

theorem break_loop_depth_witness:
  "fst (ukg_break open_state)
     = Inl (RuntimeError ''break_ must be used inside a for/while loop'')
   \<and> for_level (heap open_state 0) = 0
   \<and> for_level (heap (snd (ukg_while (IntImm 1) open_state)) 0) = 1
   \<and> for_level (heap (snd (ukg_for (IntImm 0) (IntImm 5) ''i'' ''int32'' st_counted)) 0) = 0
   \<and> fst (exec (\<lambda>d. ''t'') for_if_break st_counted)
       = Inl (RuntimeError ''break_ must be used inside a for/while loop'')
   \<and> fst (exec (\<lambda>d. ''t'') for_if_break open_state) = Inl (ValueError ''Member nidx not found'')
   \<and> fst (exec (\<lambda>d. ''t'')
            (ForC (IntImm 0) (IntImm 5) ''x'' ''int32'' ''serial''
               [IfC (GT (Load ''A'' (Var ''x'' ''int32'')) (IntImm 3)) [BreakC]]) open_state)
       = Inl (AttributeError ''type object KStmt has no attribute for_level'')"
proof -
  have w: "ukg_while (IntImm 1) open_state = (Inr 0, snd (ukg_while (IntImm 1) open_state))"
    by (simp add: ukg_while_def eval_defs)
  have f: "ukg_for (IntImm 0) (IntImm 5) ''i'' ''int32'' st_counted
           = (Inr (0, Var ''i'' ''int32'', IntImm 5),
              snd (ukg_for (IntImm 0) (IntImm 5) ''i'' ''int32'' st_counted))"
    by (simp add: loop_defs eval_defs char_of_def)
  have c: "current open_state \<noteq> []" "current st_counted \<noteq> []"
    "for_level (heap open_state 0) = 0" "last (current open_state) = 0"
    "for_level (heap st_counted 0) = 0" "last (current st_counted) = 0"
    by (simp_all add: loop_defs eval_defs)
  have e1: "fst (exec (\<lambda>d. ''t'') for_if_break st_counted)
       = Inl (RuntimeError ''break_ must be used inside a for/while loop'')"
    by (simp add: loop_defs eval_defs ukg_if_def ukg_break_def if_exit_cb_def char_of_def)
  have e2: "fst (exec (\<lambda>d. ''t'') for_if_break open_state)
       = Inl (ValueError ''Member nidx not found'')"
    by (simp add: loop_defs eval_defs)
  have e3: "fst (exec (\<lambda>d. ''t'')
            (ForC (IntImm 0) (IntImm 5) ''x'' ''int32'' ''serial''
               [IfC (GT (Load ''A'' (Var ''x'' ''int32'')) (IntImm 3)) [BreakC]]) open_state)
       = Inl (AttributeError ''type object KStmt has no attribute for_level'')"
    by (simp add: loop_defs eval_defs)
  show ?thesis
    using break_loop_depth [where st = open_state and c = "IntImm 1" and r = 0
        and ?st1.0 = "snd (ukg_while (IntImm 1) open_state)"]
      break_loop_depth [where st = st_counted and begin_v = "IntImm 0" and end_v = "IntImm 5"
        and nm = "''i''" and dtype = "''int32''" and r = 0 and lv = "Var ''i'' ''int32''"
        and ext = "IntImm 5" and kind = "''serial''" and g = "\<lambda>d. ''t''"
        and c = "GT (Load ''A'' (Var ''i'' ''int32'')) (IntImm 3)"
        and ?st1.0 = "snd (ukg_for (IntImm 0) (IntImm 5) ''i'' ''int32'' st_counted)"]
      w f c e1 e2 e3
    by simp
qed

section \<open>Leaving a for loop\<close>

lemma for_exit_effect:
  assumes "for_exit_cb r lv bg ext kind st = (Inr (), st')"
  shows "\<exists>k. kind_id kind = Inr k
           \<and> stmt_stack (heap st' r)
               = butlast (stmt_stack (heap st r))
                 @ [last (stmt_stack (heap st r)) @ [Obj (For lv bg ext k (KStmtRef r))]]"
    and "has_break (heap st' r) = has_break (heap st r)"
    and "cls_has_break st' = Some False"
  using assms
  by (auto simp: for_exit_cb_def on_block_def emit_def
      split: sum.splits option.splits prod.splits if_splits)

lemma for_open_scope:
  assumes "ukg_for begin_v end_v nm dtype st = (Inr (q, lv, ext), st1)"
  shows "stmt_stack (heap st1 q) = stmt_stack (heap st q) @ [[]]"
  using assms
  by (auto simp: ukg_for_def for_open_def get_current_def upd_def push_scope_def Let_def
      split: if_splits sum.splits option.splits)

text \<open>
  Claim C1. What the exit callback of \<^verbatim>\<open>for_\<close> does when it returns: the scope stack of
  the block keeps its depth, the scope the loop opened is not folded, and the loop node
  is appended to that same scope with the block object itself as body; the block's
  \<^verbatim>\<open>has_break\<close> is as before (the class attribute is what is set to False), and a block
  whose flag is set makes the callback raise. The extent the entry computes is \<^verbatim>\<open>end\<close>
  when \<^verbatim>\<open>begin\<close> is the constant 0 and \<^verbatim>\<open>end - begin\<close> otherwise, and the entry opens one
  scope. So the loop node does not reach the enclosing scope and carries no folded body.
\<close>

theorem for_exit_keeps_scope:
  "(for_exit_cb r lv bg ext kind st = (Inr (), st') \<longrightarrow>
      (\<exists>k. kind_id kind = Inr k
         \<and> stmt_stack (heap st' r)
             = butlast (stmt_stack (heap st r))
               @ [last (stmt_stack (heap st r)) @ [Obj (For lv bg ext k (KStmtRef r))]])
      \<and> length (stmt_stack (heap st' r)) = length (stmt_stack (heap st r))
      \<and> has_break (heap st' r) = has_break (heap st r)
      \<and> cls_has_break st' = Some False)
   \<and> (has_break (heap st r) \<longrightarrow> (\<exists>e. fst (for_exit_cb r lv bg ext kind st) = Inl e))
   \<and> (ukg_for begin_v end_v nm dtype st = (Inr (q, lv, ext), st1) \<longrightarrow>
        stmt_stack (heap st1 q) = stmt_stack (heap st q) @ [[]]
        \<and> ext = loop_extent begin_v end_v)
   \<and> loop_extent (IntImm 0) end_v = end_v
   \<and> (begin_v \<noteq> IntImm 0 \<longrightarrow> loop_extent begin_v end_v = expr_sub end_v begin_v)"
proof (intro conjI impI)
  assume h: "for_exit_cb r lv bg ext kind st = (Inr (), st')"
  from for_exit_effect(1) [OF h]
  show s: "\<exists>k. kind_id kind = Inr k
         \<and> stmt_stack (heap st' r)
             = butlast (stmt_stack (heap st r))
               @ [last (stmt_stack (heap st r)) @ [Obj (For lv bg ext k (KStmtRef r))]]" .
  from h have "stmt_stack (heap st r) \<noteq> []"
    by (auto simp: for_exit_cb_def on_block_def emit_def
        split: sum.splits option.splits prod.splits if_splits)
  with s show "length (stmt_stack (heap st' r)) = length (stmt_stack (heap st r))"
    by auto
  from for_exit_effect(2) [OF h] show "has_break (heap st' r) = has_break (heap st r)" .
  from for_exit_effect(3) [OF h] show "cls_has_break st' = Some False" .
next
  assume "has_break (heap st r)"
  then show "\<exists>e. fst (for_exit_cb r lv bg ext kind st) = Inl e"
    by (auto simp: for_exit_cb_def on_block_def emit_def split: sum.splits option.splits)
next
  assume h: "ukg_for begin_v end_v nm dtype st = (Inr (q, lv, ext), st1)"
  from for_open_scope [OF h]
  show "stmt_stack (heap st1 q) = stmt_stack (heap st q) @ [[]]" .
  from for_keeps_depth [OF h] show "ext = loop_extent begin_v end_v" by simp
next
  show "loop_extent (IntImm 0) end_v = end_v" by (simp add: loop_extent_def)
next
  assume "begin_v \<noteq> IntImm 0"
  then show "loop_extent begin_v end_v = expr_sub end_v begin_v" by (simp add: loop_extent_def)
qed

text \<open>
  The theorem at \<^verbatim>\<open>with for_(0, 5, name="x"): emit(Evaluate(7))\<close> in \<open>st_counted\<close>: the block ends
  with two scopes, the enclosing one empty, the loop's own holding the statement and the
  loop node. The same body under \<^verbatim>\<open>while_\<close> leaves one scope holding the loop node with the
  folded body. From \<open>open_state\<close> the entry of \<^verbatim>\<open>for_\<close> raises.
\<close>

theorem for_exit_keeps_scope_witness:
  "exec (\<lambda>d. ''t'') for_one_stmt st_counted
     = (Inr (), snd (exec (\<lambda>d. ''t'') for_one_stmt st_counted))
   \<and> stmt_stack (heap (snd (exec (\<lambda>d. ''t'') for_one_stmt st_counted)) 0)
       = [[], [Obj (Evaluate 7),
               Obj (For (Var ''x'' ''int32'') (IntImm 0) (IntImm 5) SERIAL (KStmtRef 0))]]
   \<and> stmt_stack (heap (snd (exec (\<lambda>d. ''t'') while_one_stmt st_counted)) 0)
       = [[Obj (While (IntImm 1) (Evaluate 7))]]
   \<and> fst (exec (\<lambda>d. ''t'') for_one_stmt open_state)
       = Inl (AttributeError ''type object KStmt has no attribute for_level'')
   \<and> (\<exists>e. fst (for_exit_cb 0 (Var ''x'' ''int32'') (IntImm 0) (IntImm 5) ''serial''
                  (upd 0 (\<lambda>b. b\<lparr>has_break := True\<rparr>) st_counted)) = Inl e)
   \<and> loop_extent (IntImm 0) (IntImm 5) = IntImm 5
   \<and> loop_extent (IntImm 2) (IntImm 5) = IntImm 3"
proof -
  let ?lv = "Var ''x'' ''int32''"
  define s1 where "s1 = snd (ukg_for (IntImm 0) (IntImm 5) ''x'' ''int32'' st_counted)"
  define s2 where "s2 = snd (exec (\<lambda>d. ''t'') (EmitC (Obj (Evaluate 7))) s1)"
  define s3 where "s3 = snd (for_exit_cb 0 ?lv (IntImm 0) (IntImm 5) ''serial'' s2)"
  define sb where "sb = upd 0 (\<lambda>b. b\<lparr>has_break := True\<rparr>) st_counted"
  have f: "ukg_for (IntImm 0) (IntImm 5) ''x'' ''int32'' st_counted
             = (Inr (0, ?lv, IntImm 5), s1)"
    by (simp add: s1_def loop_defs eval_defs)
  have x: "for_exit_cb 0 ?lv (IntImm 0) (IntImm 5) ''serial'' s2 = (Inr (), s3)"
    by (simp add: s3_def s2_def s1_def loop_defs eval_defs)
  have s: "stmt_stack (heap s2 0) = [[], [Obj (Evaluate 7)]]"
    by (simp add: s2_def s1_def loop_defs eval_defs)
  have b: "has_break (heap sb 0)"
    by (simp add: sb_def loop_defs eval_defs)
  have e: "exec (\<lambda>d. ''t'') for_one_stmt st_counted = (Inr (), s3)"
    by (simp add: s3_def s2_def s1_def for_one_stmt_def loop_defs eval_defs)
  have w: "stmt_stack (heap (snd (exec (\<lambda>d. ''t'') while_one_stmt st_counted)) 0)
       = [[Obj (While (IntImm 1) (Evaluate 7))]]"
    by (simp add: while_one_stmt_def ukg_while_def while_exit_cb_def loop_defs eval_defs)
  have a: "fst (exec (\<lambda>d. ''t'') for_one_stmt open_state)
       = Inl (AttributeError ''type object KStmt has no attribute for_level'')"
    by (simp add: for_one_stmt_def loop_defs eval_defs)
  have k: "kind_id ''serial'' = Inr SERIAL"
    by (simp add: kind_id_def)
  have t1: "stmt_stack (heap s3 0)
              = [[], [Obj (Evaluate 7), Obj (For ?lv (IntImm 0) (IntImm 5) SERIAL (KStmtRef 0))]]"
    and t2: "loop_extent (IntImm 0) (IntImm 5) = IntImm 5"
    using for_exit_keeps_scope [where r = 0 and lv = ?lv and bg = "IntImm 0"
        and ext = "IntImm 5" and kind = "''serial''" and st = s2 and st' = s3
        and begin_v = "IntImm 0" and end_v = "IntImm 5" and nm = "''x''"
        and dtype = "''int32''" and q = 0 and ?st1.0 = s1] x s k
    by simp_all
  have t3: "\<exists>e. fst (for_exit_cb 0 ?lv (IntImm 0) (IntImm 5) ''serial'' sb) = Inl e"
    and t4: "loop_extent (IntImm 2) (IntImm 5) = IntImm 3"
    using for_exit_keeps_scope [where r = 0 and lv = ?lv and bg = "IntImm 0"
        and ext = "IntImm 5" and kind = "''serial''" and st = sb and st' = sb
        and begin_v = "IntImm 2" and end_v = "IntImm 5" and nm = "''x''"
        and dtype = "''int32''" and q = 0 and ?st1.0 = sb] b
    by simp_all
  from e t1 t2 t3 t4 w a show ?thesis
    by (simp add: sb_def)
qed

section \<open>Names of unnamed loops\<close>

lemma default_names:
  "default_name 0 = Inr ''i''" "default_name 1 = Inr ''j''" "default_name 2 = Inr ''k''"
  "default_name 3 = Inr ''i_0''" "default_name 4 = Inr ''i_1''"
  by (simp_all add: default_name_def str_int_def str_nat.simps char_of_def)

lemma for_unnamed_raises:
  assumes "current st \<noteq> []" and "nidx (heap st (last (current st))) = None"
    and "var_dict (heap st (last (current st))) ''nidx'' = None"
    and "\<not> getattr_hit st (heap st (last (current st))) ''nidx''"
  shows "ukg_for begin_v end_v ''i'' dtype st
           = (Inl (ValueError
                (if \<exists>k \<in> input_KStmts (heap st (last (current st))). late (heap st k) = None
                 then ''Member name not found'' else ''Member nidx not found'')), st)"
  using assms
  by (auto simp: ukg_for_def get_current_def read_nidx_def getattr_def getattr_hit_def)

lemma for_unnamed_counts:
  assumes "ukg_for begin_v end_v ''i'' dtype st = (Inr (r, lv, ext), st1)"
    and "nidx (heap st r) = Some n"
  shows "(\<exists>nm'. default_name n = Inr nm' \<and> lv = Var nm' dtype) \<and> nidx (heap st1 r) = Some (n + 1)"
  using assms
  by (auto simp: ukg_for_def for_open_def get_current_def read_nidx_def upd_def push_scope_def
      Let_def split: if_splits sum.splits option.splits)

text \<open>
  Claim C8. A block as the constructor's assignments leave it has no attribute \<^verbatim>\<open>nidx\<close>
  and nothing \<^verbatim>\<open>__getattr__\<close> could return for that name. In such a block \<^verbatim>\<open>for_\<close> without
  a name raises ValueError ``Member nidx not found'' (``Member name not found'' when an
  input block has no name to compare) and changes nothing: no loop gets a default name.
  Where the block does have a counter \<open>n\<close> and \<^verbatim>\<open>for_\<close> returns, the loop variable has the
  name the naming formula gives for \<open>n\<close> and the counter becomes \<open>n + 1\<close>; the formula
  gives \<^verbatim>\<open>i\<close>, \<^verbatim>\<open>j\<close>, \<^verbatim>\<open>k\<close> for 0, 1, 2 and \<^verbatim>\<open>i_0\<close> for 3.
\<close>

theorem unnamed_loop_names:
  "nidx blank = None
   \<and> var_dict blank ''nidx'' = None
   \<and> \<not> getattr_hit st' blank ''nidx''
   \<and> (current st \<noteq> [] \<and> nidx (heap st (last (current st))) = None
        \<and> var_dict (heap st (last (current st))) ''nidx'' = None
        \<and> \<not> getattr_hit st (heap st (last (current st))) ''nidx'' \<longrightarrow>
      ukg_for begin_v end_v ''i'' dtype st
        = (Inl (ValueError
             (if \<exists>k \<in> input_KStmts (heap st (last (current st))). late (heap st k) = None
              then ''Member name not found'' else ''Member nidx not found'')), st))
   \<and> (ukg_for begin_v end_v ''i'' dtype st = (Inr (r, lv, ext), st1)
        \<and> nidx (heap st r) = Some n \<longrightarrow>
      (\<exists>nm'. default_name n = Inr nm' \<and> lv = Var nm' dtype)
      \<and> nidx (heap st1 r) = Some (n + 1))
   \<and> default_name 0 = Inr ''i'' \<and> default_name 1 = Inr ''j''
   \<and> default_name 2 = Inr ''k'' \<and> default_name 3 = Inr ''i_0''"
proof (intro conjI impI)
  show "nidx blank = None" "var_dict blank ''nidx'' = None"
    "\<not> getattr_hit st' blank ''nidx''"
    by (simp_all add: blank_def getattr_hit_def)
next
  assume "current st \<noteq> [] \<and> nidx (heap st (last (current st))) = None
        \<and> var_dict (heap st (last (current st))) ''nidx'' = None
        \<and> \<not> getattr_hit st (heap st (last (current st))) ''nidx''"
  then show "ukg_for begin_v end_v ''i'' dtype st
        = (Inl (ValueError
             (if \<exists>k \<in> input_KStmts (heap st (last (current st))). late (heap st k) = None
              then ''Member name not found'' else ''Member nidx not found'')), st)"
    by (simp add: for_unnamed_raises)
next
  assume h: "ukg_for begin_v end_v ''i'' dtype st = (Inr (r, lv, ext), st1)
        \<and> nidx (heap st r) = Some n"
  then show "\<exists>nm'. default_name n = Inr nm' \<and> lv = Var nm' dtype"
    "nidx (heap st1 r) = Some (n + 1)"
    using for_unnamed_counts [of begin_v end_v dtype st r lv ext st1 n] by simp_all
next
  show "default_name 0 = Inr ''i''" "default_name 1 = Inr ''j''"
    "default_name 2 = Inr ''k''" "default_name 3 = Inr ''i_0''"
    by (rule default_names)+
qed

text \<open>
  The theorem at \<open>open_state\<close>, where the first of four unnamed loops raises, and at
  \<open>st_counted\<close>, where the counter is in place: there the four loops are named
  \<^verbatim>\<open>i\<close>, \<^verbatim>\<open>j\<close>, \<^verbatim>\<open>k\<close>, \<^verbatim>\<open>i_0\<close> (each loop node is left in the scope its loop opened).
\<close>

theorem unnamed_loop_names_witness:
  "exec (\<lambda>d. ''t'') unnamed_loop open_state
     = (Inl (ValueError ''Member nidx not found''), open_state)
   \<and> execs (\<lambda>d. ''t'') [unnamed_loop, unnamed_loop, unnamed_loop, unnamed_loop] open_state
     = (Inl (ValueError ''Member nidx not found''), open_state)
   \<and> ukg_for (IntImm 0) (IntImm 5) ''i'' ''int32'' st_counted
       = (Inr (0, Var ''i'' ''int32'', IntImm 5),
          snd (ukg_for (IntImm 0) (IntImm 5) ''i'' ''int32'' st_counted))
   \<and> nidx (heap (snd (ukg_for (IntImm 0) (IntImm 5) ''i'' ''int32'' st_counted)) 0) = Some 1
   \<and> map (\<lambda>sc. case sc of [Obj (For (Var v d) b e k body)] \<Rightarrow> v | _ \<Rightarrow> [])
         (stmt_stack (heap (snd (execs (\<lambda>d. ''t'')
            [unnamed_loop, unnamed_loop, unnamed_loop, unnamed_loop] st_counted)) 0))
       = ['''', ''i'', ''j'', ''k'', ''i_0'']"
proof -
  define s1 where "s1 = snd (ukg_for (IntImm 0) (IntImm 5) ''i'' ''int32'' st_counted)"
  have o: "current open_state \<noteq> []" "last (current open_state) = 0"
    "heap open_state 0 = blank" "input_KStmts blank = {}"
    by (simp_all add: eval_defs)
  have f: "ukg_for (IntImm 0) (IntImm 5) ''i'' ''int32'' st_counted
             = (Inr (0, Var ''i'' ''int32'', IntImm 5), s1)"
    by (simp add: s1_def loop_defs eval_defs char_of_def)
  have n: "nidx (heap st_counted 0) = Some 0"
    by (simp add: loop_defs eval_defs)
  have t1: "ukg_for (IntImm 0) (IntImm 5) ''i'' ''int32'' open_state
              = (Inl (ValueError ''Member nidx not found''), open_state)"
    using unnamed_loop_names [where st = open_state and st' = open_state
        and begin_v = "IntImm 0" and end_v = "IntImm 5" and dtype = "''int32''" and r = 0
        and lv = "Var ''i'' ''int32''" and ext = "IntImm 5" and ?st1.0 = open_state and n = 0]
      o
    by simp
  have t2: "nidx (heap s1 0) = Some 1"
    using unnamed_loop_names [where st = st_counted and st' = open_state
        and begin_v = "IntImm 0"
        and end_v = "IntImm 5" and dtype = "''int32''" and r = 0
        and lv = "Var ''i'' ''int32''" and ext = "IntImm 5" and ?st1.0 = s1 and n = 0]
      f n
    by simp
  have e1: "exec (\<lambda>d. ''t'') unnamed_loop open_state
     = (Inl (ValueError ''Member nidx not found''), open_state)"
    using t1 by (simp add: unnamed_loop_def)
  then have e2: "execs (\<lambda>d. ''t'') [unnamed_loop, unnamed_loop, unnamed_loop, unnamed_loop]
       open_state = (Inl (ValueError ''Member nidx not found''), open_state)"
    by simp
  have e3: "map (\<lambda>sc. case sc of [Obj (For (Var v d) b e k body)] \<Rightarrow> v | _ \<Rightarrow> [])
         (stmt_stack (heap (snd (execs (\<lambda>d. ''t'')
            [unnamed_loop, unnamed_loop, unnamed_loop, unnamed_loop] st_counted)) 0))
       = ['''', ''i'', ''j'', ''k'', ''i_0'']"
    by (simp add: unnamed_loop_def loop_defs eval_defs char_of_def str_int_def str_nat.simps)
  from e1 e2 e3 f t2 show ?thesis
    by (simp add: s1_def)
qed

section \<open>The function definition and its return flag\<close>

lemma with_exit_Inr:
  assumes "with_exit res cb = (Inr u, st')"
  shows "fst res = Inr u \<and> cb (snd res) = (Inr (), st')"
  using assms by (auto simp: with_exit_def split: prod.splits sum.splits)

lemma kept_refl: "kept st st"
  by (simp add: kept_def)

lemma kept_trans: "kept st st1 \<Longrightarrow> kept st1 st2 \<Longrightarrow> kept st st2"
  by (simp add: kept_def)

lemma emit_frame: "emit e b = (x, b') \<Longrightarrow> has_return b' = has_return b"
  by (auto simp: emit_def split: if_splits)

lemma pop_frame: "pop_stmt b = (x, b') \<Longrightarrow> has_return b' = has_return b"
  by (auto simp: pop_stmt_def split: if_splits)

lemma on_block_kept:
  assumes "on_block r m st = (x, st')"
    and "\<And>y b'. m (heap st r) = (y, b') \<Longrightarrow> has_return b' = has_return (heap st r)"
  shows "kept st st'"
proof -
  obtain y b' where m: "m (heap st r) = (y, b')" by (cases "m (heap st r)")
  with assms(1) have "st' = st\<lparr>heap := (heap st)(r := b')\<rparr>"
    by (simp add: on_block_def)
  with assms(2) [OF m] show ?thesis by (simp add: kept_def)
qed

lemma upd_kept:
  "has_return (f (heap st r)) = has_return (heap st r) \<Longrightarrow> kept st (upd r f st)"
  by (simp add: kept_def upd_def)

lemma if_cb_frame: "if_exit_cb c b = (x, b') \<Longrightarrow> has_return b' = has_return b"
  by (auto simp: if_exit_cb_def split: prod.splits sum.splits dest!: emit_frame pop_frame)

lemma elif_cb_frame: "elif_exit_cb prev c b = (x, b') \<Longrightarrow> has_return b' = has_return b"
  by (auto simp: elif_exit_cb_def split: prod.splits sum.splits dest!: emit_frame pop_frame)

lemma else_cb_frame: "else_exit_cb prev b = (x, b') \<Longrightarrow> has_return b' = has_return b"
  by (auto simp: else_exit_cb_def split: prod.splits sum.splits dest!: emit_frame pop_frame)

lemma while_cb_frame: "while_exit_cb c b = (x, b') \<Longrightarrow> has_return b' = has_return b"
  by (auto simp: while_exit_cb_def split: prod.splits sum.splits dest!: emit_frame pop_frame)

lemma if_kept: "ukg_if c st = (x, st') \<Longrightarrow> kept st st'"
  by (auto simp: ukg_if_def kept_def upd_def push_scope_def split: sum.splits if_splits)

lemma elif_kept: "ukg_elif c st = (x, st') \<Longrightarrow> kept st st'"
  by (auto simp: ukg_elif_def kept_def upd_def take_prev_def
      split: sum.splits if_splits entry.splits)

lemma else_kept: "ukg_else st = (x, st') \<Longrightarrow> kept st st'"
  by (auto simp: ukg_else_def kept_def upd_def take_prev_def
      split: sum.splits if_splits entry.splits)

lemma while_kept: "ukg_while c st = (x, st') \<Longrightarrow> kept st st'"
  by (auto simp: ukg_while_def kept_def upd_def push_scope_def split: sum.splits if_splits)

lemma for_kept: "ukg_for b e nm dt st = (x, st') \<Longrightarrow> kept st st'"
  by (auto simp: ukg_for_def for_open_def kept_def upd_def push_scope_def Let_def
      split: sum.splits if_splits option.splits)

lemma for_cb_kept: "for_exit_cb r lv b e kind st = (x, st') \<Longrightarrow> kept st st'"
  by (auto simp: for_exit_cb_def kept_def on_block_def emit_def
      split: sum.splits option.splits prod.splits if_splits)

lemma break_kept: "ukg_break st = (x, st') \<Longrightarrow> kept st st'"
  by (auto simp: ukg_break_def kept_def on_block_def emit_def upd_def
      split: sum.splits if_splits prod.splits)

lemma emit_cmd_kept: "exec g (EmitC e) st = (x, st') \<Longrightarrow> kept st st'"
  by (auto simp: kept_def on_block_def emit_def split: sum.splits prod.splits if_splits)

lemma return_sets:
  assumes "ukg_return g v st = (Inr (), st')"
  shows "current st' = current st
         \<and> (\<forall>q. has_return (heap st' q) = (has_return (heap st q) \<or> q = last (current st)))"
  using assms
  by (auto simp: ukg_return_def on_block_def emit_def upd_def Let_def
      split: sum.splits if_splits prod.splits)

lemma kept_traced: "kept st st' \<Longrightarrow> traced st st' False"
  by (simp add: kept_def traced_def)

lemma traced_kept_left: "kept st st1 \<Longrightarrow> traced st1 st2 u \<Longrightarrow> traced st st2 u"
  by (simp add: kept_def traced_def)

lemma traced_kept_right: "traced st st1 u \<Longrightarrow> kept st1 st2 \<Longrightarrow> traced st st2 u"
  by (simp add: kept_def traced_def)

lemma traced_seq: "traced st st1 u \<Longrightarrow> traced st1 st2 v \<Longrightarrow> traced st st2 (u \<or> v)"
  by (auto simp: traced_def)

lemma scoped:
  assumes e: "kept st st1" and b: "traced st1 st2 u" and x: "kept st2 st3"
  shows "traced st st3 u"
  using traced_kept_right [OF traced_kept_left [OF e b] x] .

lemma trace_frame:
  "\<forall>st'. exec g c st = (Inr (), st') \<longrightarrow> traced st st' (uses_return c)"
  "\<forall>st'. execs g cs st = (Inr (), st') \<longrightarrow> traced st st' (uses_returns cs)"
proof (induction g c st and g cs st rule: exec_execs.induct)
  case (1 gtd e st)
  show ?case using emit_cmd_kept [of gtd e st] by (auto intro: kept_traced)
next
  case (2 gtd c body st)
  show ?case
  proof (intro allI impI)
    fix st' assume h: "exec gtd (IfC c body) st = (Inr (), st')"
    obtain x st1 where i: "ukg_if c st = (x, st1)" by (cases "ukg_if c st")
    with h obtain r where x: "x = Inr r" by (cases x) auto
    from h i x have w: "with_exit (execs gtd body st1) (on_block r (if_exit_cb c)) = (Inr (), st')"
      by simp
    from with_exit_Inr [OF w] obtain st2 where
      b: "execs gtd body st1 = (Inr (), st2)" and c: "on_block r (if_exit_cb c) st2 = (Inr (), st')"
      by (cases "execs gtd body st1") auto
    from "2.IH" [OF i [symmetric] x] b have t: "traced st1 st2 (uses_returns body)" by simp
    from on_block_kept [OF c] have k: "kept st2 st'" by (auto dest: if_cb_frame)
    from scoped [OF if_kept [OF i] t k] show "traced st st' (uses_return (IfC c body))" by simp
  qed
next
  case (3 gtd c body st)
  show ?case
  proof (intro allI impI)
    fix st' assume h: "exec gtd (ElifC c body) st = (Inr (), st')"
    obtain x st1 where i: "ukg_elif c st = (x, st1)" by (cases "ukg_elif c st")
    with h obtain r prev where x: "x = Inr (r, prev)" by (cases x) auto
    from h i x have w: "with_exit (execs gtd body st1) (on_block r (elif_exit_cb prev c))
                          = (Inr (), st')"
      by simp
    from with_exit_Inr [OF w] obtain st2 where
      b: "execs gtd body st1 = (Inr (), st2)"
      and c: "on_block r (elif_exit_cb prev c) st2 = (Inr (), st')"
      by (cases "execs gtd body st1") auto
    from "3.IH" [OF i [symmetric] x refl] b have t: "traced st1 st2 (uses_returns body)"
      by simp
    from on_block_kept [OF c] have k: "kept st2 st'" by (auto dest: elif_cb_frame)
    from scoped [OF elif_kept [OF i] t k] show "traced st st' (uses_return (ElifC c body))"
      by simp
  qed
next
  case (4 gtd body st)
  show ?case
  proof (intro allI impI)
    fix st' assume h: "exec gtd (ElseC body) st = (Inr (), st')"
    obtain x st1 where i: "ukg_else st = (x, st1)" by (cases "ukg_else st")
    with h obtain r prev where x: "x = Inr (r, prev)" by (cases x) auto
    from h i x have w: "with_exit (execs gtd body st1) (on_block r (else_exit_cb prev))
                          = (Inr (), st')"
      by simp
    from with_exit_Inr [OF w] obtain st2 where
      b: "execs gtd body st1 = (Inr (), st2)"
      and c: "on_block r (else_exit_cb prev) st2 = (Inr (), st')"
      by (cases "execs gtd body st1") auto
    from "4.IH" [OF i [symmetric] x refl] b have t: "traced st1 st2 (uses_returns body)"
      by simp
    from on_block_kept [OF c] have k: "kept st2 st'" by (auto dest: else_cb_frame)
    from scoped [OF else_kept [OF i] t k] show "traced st st' (uses_return (ElseC body))"
      by simp
  qed
next
  case (5 gtd begin_v end_v nm dtype kind body st)
  show ?case
  proof (intro allI impI)
    fix st' assume h: "exec gtd (ForC begin_v end_v nm dtype kind body) st = (Inr (), st')"
    obtain x st1 where i: "ukg_for begin_v end_v nm dtype st = (x, st1)"
      by (cases "ukg_for begin_v end_v nm dtype st")
    with h obtain r lv ext where x: "x = Inr (r, lv, ext)" by (cases x) auto
    from h i x have w: "with_exit (execs gtd body st1) (for_exit_cb r lv begin_v ext kind)
                          = (Inr (), st')"
      by simp
    from with_exit_Inr [OF w] obtain st2 where
      b: "execs gtd body st1 = (Inr (), st2)"
      and c: "for_exit_cb r lv begin_v ext kind st2 = (Inr (), st')"
      by (cases "execs gtd body st1") auto
    from "5.IH" [OF i [symmetric] x refl refl] b have t: "traced st1 st2 (uses_returns body)"
      by simp
    from scoped [OF for_kept [OF i] t for_cb_kept [OF c]]
    show "traced st st' (uses_return (ForC begin_v end_v nm dtype kind body))" by simp
  qed
next
  case (6 gtd c body st)
  show ?case
  proof (intro allI impI)
    fix st' assume h: "exec gtd (WhileC c body) st = (Inr (), st')"
    obtain x st1 where i: "ukg_while c st = (x, st1)" by (cases "ukg_while c st")
    with h obtain r where x: "x = Inr r" by (cases x) auto
    from h i x have w: "with_exit (execs gtd body st1) (on_block r (while_exit_cb c))
                          = (Inr (), st')"
      by simp
    from with_exit_Inr [OF w] obtain st2 where
      b: "execs gtd body st1 = (Inr (), st2)"
      and c: "on_block r (while_exit_cb c) st2 = (Inr (), st')"
      by (cases "execs gtd body st1") auto
    from "6.IH" [OF i [symmetric] x] b have t: "traced st1 st2 (uses_returns body)" by simp
    from on_block_kept [OF c] have k: "kept st2 st'" by (auto dest: while_cb_frame)
    from scoped [OF while_kept [OF i] t k] show "traced st st' (uses_return (WhileC c body))"
      by simp
  qed
next
  case (7 gtd st)
  show ?case using break_kept [of st] by (auto intro: kept_traced)
next
  case (8 gtd v st)
  show ?case using return_sets [of gtd v st] by (auto simp: traced_def)
next
  case (9 gtd nm body st)
  show ?case using new_raises [of nm None "[]" st] by auto
next
  case (10 gtd st)
  show ?case by (simp add: traced_def)
next
  case (11 gtd c cs st)
  show ?case
  proof (intro allI impI)
    fix st' assume h: "execs gtd (c # cs) st = (Inr (), st')"
    obtain x st1 where i: "exec gtd c st = (x, st1)" by (cases "exec gtd c st")
    with h have x: "x = Inr ()" by (cases x) auto
    from h i x have r: "execs gtd cs st1 = (Inr (), st')" by simp
    from "11.IH"(1) i x have a: "traced st st1 (uses_return c)" by simp
    from "11.IH"(2) [OF i [symmetric] x] r have b: "traced st1 st' (uses_returns cs)" by simp
    from traced_seq [OF a b] show "traced st st' (uses_returns (c # cs))" by simp
  qed
qed

lemma def_raises:
  "\<exists>e. ukg_def gtd params itv ash adt ate rd nm fmodule st = (Inl e, st)"
  using new_raises [of nm None "[]" st] by (auto simp: ukg_def_def)

lemma def_emit_node:
  assumes c: "current st = cs @ [s]" and n: "\<not> has_return (heap st s)"
    and d: "def_emit gtd s itv ash adt ate rd nm fmodule st = (Inr (), st')"
  shows "\<exists>st2 body.
           execs gtd fmodule (upd s (\<lambda>b. b\<lparr>ret_dtype := Some rd\<rparr>) st) = (Inr (), st2)
           \<and> fst (pop_stmt (heap st2 s)) = Inr body
           \<and> stmt_stack (heap st' s)
               = butlast (stmt_stack (heap st2 s))
                 @ [[Obj (KernelDef itv ash adt ate body
                            (if uses_returns fmodule then UIntImm ''uint1'' 0
                             else UIntImm ''uint1'' 1) rd nm [])]]"
proof -
  let ?st0 = "upd s (\<lambda>b. b\<lparr>ret_dtype := Some rd\<rparr>) st"
  obtain x st2 where e: "execs gtd fmodule ?st0 = (x, st2)"
    by (cases "execs gtd fmodule ?st0")
  with d have x: "x = Inr ()" by (cases x) (auto simp: def_emit_def)
  from trace_frame(2) [of gtd fmodule ?st0] e x
  have t: "traced ?st0 st2 (uses_returns fmodule)" by simp
  with c n have r: "has_return (heap st2 s) = uses_returns fmodule"
    by (simp add: traced_def upd_def)
  obtain y b3 where p: "pop_stmt (heap st2 s) = (y, b3)" by (cases "pop_stmt (heap st2 s)")
  with d e x obtain body where y: "y = Inr body"
    by (cases y) (auto simp: def_emit_def on_block_def)
  from p have b3: "b3 = (heap st2 s)\<lparr>stmt_stack := butlast (stmt_stack (heap st2 s))\<rparr>"
    by (auto simp: pop_stmt_def split: if_splits)
  from d e x p y r b3
  have "stmt_stack (heap st' s)
               = butlast (stmt_stack (heap st2 s))
                 @ [[Obj (KernelDef itv ash adt ate body
                            (if uses_returns fmodule then UIntImm ''uint1'' 0
                             else UIntImm ''uint1'' 1) rd nm [])]]"
    by (auto simp: def_emit_def on_block_def upd_def push_scope_def emit_def
        split: if_splits)
  with e x p y show ?thesis by auto
qed

text \<open>
  Claim C9. \<^verbatim>\<open>def_\<close> raises on every call, in the constructor of its block, before the
  callable is traced (ValueError for \<^verbatim>\<open>name\<close> when no block is open): it emits no node.
  The statements that trace the callable and emit the node, run on a block that is
  current and has not seen a \<^verbatim>\<open>return_\<close>, do what the claim says when they return: the
  block's top scope is replaced by a scope holding one function-definition node, which
  carries the fold of that scope, the declared return dtype, and the return-void flag
  \<^verbatim>\<open>UIntImm("uint1", 1)\<close> exactly when the trace uses no \<^verbatim>\<open>return_\<close>.
\<close>

theorem def_return_flag:
  "(\<exists>e. ukg_def gtd params itv ash adt ate rd nm fmodule st = (Inl e, st))
   \<and> (get_len st = 0 \<longrightarrow>
        ukg_def gtd params itv ash adt ate rd nm fmodule st
          = (Inl (ValueError ''Member name not found''), st))
   \<and> (current st = cs @ [s] \<and> \<not> has_return (heap st s)
        \<and> def_emit gtd s itv ash adt ate rd nm fmodule st = (Inr (), st') \<longrightarrow>
        (\<exists>st2 body.
           execs gtd fmodule (upd s (\<lambda>b. b\<lparr>ret_dtype := Some rd\<rparr>) st) = (Inr (), st2)
           \<and> fst (pop_stmt (heap st2 s)) = Inr body
           \<and> stmt_stack (heap st' s)
               = butlast (stmt_stack (heap st2 s))
                 @ [[Obj (KernelDef itv ash adt ate body
                            (if uses_returns fmodule then UIntImm ''uint1'' 0
                             else UIntImm ''uint1'' 1) rd nm [])]]))"
proof (intro conjI impI)
  show "\<exists>e. ukg_def gtd params itv ash adt ate rd nm fmodule st = (Inl e, st)"
    by (rule def_raises)
next
  assume "get_len st = 0"
  then show "ukg_def gtd params itv ash adt ate rd nm fmodule st
          = (Inl (ValueError ''Member name not found''), st)"
    by (simp add: ukg_def_def new_KStmt_def init_raises(2))
next
  assume "current st = cs @ [s] \<and> \<not> has_return (heap st s)
        \<and> def_emit gtd s itv ash adt ate rd nm fmodule st = (Inr (), st')"
  then show "\<exists>st2 body.
           execs gtd fmodule (upd s (\<lambda>b. b\<lparr>ret_dtype := Some rd\<rparr>) st) = (Inr (), st2)
           \<and> fst (pop_stmt (heap st2 s)) = Inr body
           \<and> stmt_stack (heap st' s)
               = butlast (stmt_stack (heap st2 s))
                 @ [[Obj (KernelDef itv ash adt ate body
                            (if uses_returns fmodule then UIntImm ''uint1'' 0
                             else UIntImm ''uint1'' 1) rd nm [])]]"
    using def_emit_node [of st cs s gtd itv ash adt ate rd nm fmodule st'] by simp
qed

text \<open>
  The theorem at the function of the docstring of \<^verbatim>\<open>return_\<close>: \<^verbatim>\<open>def_\<close> raises from
  \<open>start_state\<close>; on the block of \<open>open_state\<close> the node has the flag 0 and the conditional
  with the two returns as body, and for a trace without \<^verbatim>\<open>return_\<close> the flag 1.
\<close>

theorem def_return_flag_witness:
  "ukg_def dtype_of [] [] [] [] [] ''int32'' ''f'' returns_example start_state
     = (Inl (ValueError ''Member name not found''), start_state)
   \<and> uses_returns returns_example
   \<and> fst (def_emit dtype_of 0 [] [] [] [] ''int32'' ''f'' returns_example open_state) = Inr ()
   \<and> stmt_stack (heap (snd (def_emit dtype_of 0 [] [] [] [] ''int32'' ''f'' returns_example
                               open_state)) 0)
       = [[Obj (KernelDef [] [] [] []
                 (IfThenElse (GT (Load ''A'' (Var ''x'' ''int32'')) (IntImm 0))
                    (Return (Cast ''int32'' (IntImm 1))) (Return (Cast ''int32'' (IntImm 0))))
                 (UIntImm ''uint1'' 0) ''int32'' ''f'' [])]]
   \<and> stmt_stack (heap (snd (def_emit dtype_of 0 [] [] [] [] ''int32'' ''f''
                               [EmitC (Obj (Evaluate 3))] open_state)) 0)
       = [[Obj (KernelDef [] [] [] [] (Evaluate 3) (UIntImm ''uint1'' 1) ''int32'' ''f'' [])]]"
proof -
  let ?d = "def_emit dtype_of 0 [] [] [] [] ''int32'' ''f'' returns_example open_state"
  have s: "get_len start_state = 0" "current open_state = [] @ [0]"
    "\<not> has_return (heap open_state 0)"
    by (simp_all add: eval_defs)
  have d: "fst ?d = Inr ()"
    by (simp add: def_emit_def returns_example_def dtype_of_def ukg_return_def
        construct_defs eval_defs)
  have a: "ukg_def dtype_of [] [] [] [] [] ''int32'' ''f'' returns_example start_state
     = (Inl (ValueError ''Member name not found''), start_state)"
    using def_return_flag [where gtd = dtype_of and params = "[]" and itv = "[]" and ash = "[]"
        and adt = "[]" and ate = "[]" and rd = "''int32''" and nm = "''f''"
        and fmodule = returns_example and st = start_state and cs = "[]" and s = 0
        and st' = start_state] s
    by simp
  have b: "stmt_stack (heap (snd ?d) 0)
       = [[Obj (KernelDef [] [] [] []
                 (IfThenElse (GT (Load ''A'' (Var ''x'' ''int32'')) (IntImm 0))
                    (Return (Cast ''int32'' (IntImm 1))) (Return (Cast ''int32'' (IntImm 0))))
                 (UIntImm ''uint1'' 0) ''int32'' ''f'' [])]]"
    by (simp add: def_emit_def returns_example_def dtype_of_def ukg_return_def
        construct_defs eval_defs)
  have c: "stmt_stack (heap (snd (def_emit dtype_of 0 [] [] [] [] ''int32'' ''f''
                               [EmitC (Obj (Evaluate 3))] open_state)) 0)
       = [[Obj (KernelDef [] [] [] [] (Evaluate 3) (UIntImm ''uint1'' 1) ''int32'' ''f'' [])]]"
    by (simp add: def_emit_def eval_defs)
  have u: "uses_returns returns_example"
    by (simp add: returns_example_def)
  from a b c d u show ?thesis by simp
qed

end
